theory Spec2Isabelle
  imports Complex_Main
begin

section \<open>Python exceptions as values\<close>

text \<open>
  Every \<^verbatim>\<open>raise\<close> of the source, and every exception the interpreter raises for
  an operation the source performs, is a value of type \<open>error\<close>; a fallible function
  returns \<open>error + 'a\<close> with \<open>Inl\<close> for the exception. The string is the message.
\<close>

datatype error =
    ValueError string
  | TypeError string
  | AttributeError string
  | IndexError string
  | KeyError string
  | AssertionError
  | ZeroDivisionError string
  | NotImplementedError string
  | MFGridException string
  | IOError string

section \<open>The model grids of flopy/grid/modelgrid.py\<close>

datatype GridType = structured | layered_vertex | unlayered_vertex

text \<open>
  \<^verbatim>\<open>MFGridException.__init__\<close> prefixes the message it is given.
\<close>

definition MFGridException_init :: "string \<Rightarrow> error" where
  "MFGridException_init err = MFGridException (''MFGridException: '' @ err)"

text \<open>
  \<^verbatim>\<open>ModelGrid.__init__\<close> stores its argument in the attribute \<^verbatim>\<open>grid_type\<close>
  (a member of the enumeration), and \<^verbatim>\<open>model_name\<close>, which defaults to the empty string
  and which neither subclass passes on. The methods below read the attribute as
  \<^verbatim>\<open>self.grid_type()\<close>: a call of the stored enumeration member. A member of a Python
  \<^verbatim>\<open>Enum\<close> is not callable, so the call raises \<^verbatim>\<open>TypeError\<close> whatever the member is.
\<close>

definition grid_type_call :: "GridType \<Rightarrow> error + GridType" where
  "grid_type_call g = Inl (TypeError ''GridType object is not callable'')"

record StructuredModelGrid =
  sg_grid_type :: GridType
  sg_model_name :: string
  delc :: "real list"
  delr :: "real list"
  sg_top :: "real list list"
  sg_botm :: "real list list list"
  sg_idomain :: "int list list list"
  nlay :: int
  nrow :: int
  ncol :: int

text \<open>
  \<^verbatim>\<open>StructuredModelGrid.__init__(self, delc, delr, top, botm, idomain)\<close>:
  \<^verbatim>\<open>self.nlay = len(botm); self.nrow = len(delr); self.ncol = len(delc)\<close>.
\<close>

definition StructuredModelGrid_init ::
  "real list \<Rightarrow> real list \<Rightarrow> real list list \<Rightarrow> real list list list \<Rightarrow> int list list list
    \<Rightarrow> StructuredModelGrid" where
  "StructuredModelGrid_init delc0 delr0 top0 botm0 idomain0 =
     \<lparr> sg_grid_type = structured, sg_model_name = [],
       delc = delc0, delr = delr0, sg_top = top0, sg_botm = botm0, sg_idomain = idomain0,
       nlay = int (length botm0),
       nrow = int (length delr0),
       ncol = int (length delc0) \<rparr>"

definition StructuredModelGrid_num_cells_per_layer :: "StructuredModelGrid \<Rightarrow> bool \<Rightarrow> error + int" where
  "StructuredModelGrid_num_cells_per_layer g active_only =
     (if active_only then Inl (NotImplementedError ''this feature is not yet implemented'')
      else Inr (nrow g * ncol g))"

definition StructuredModelGrid_num_cells :: "StructuredModelGrid \<Rightarrow> bool \<Rightarrow> error + int" where
  "StructuredModelGrid_num_cells g active_only =
     (if active_only then Inl (NotImplementedError ''this feature is not yet implemented'')
      else Inr (nrow g * ncol g * nlay g))"

record VertexModelGrid =
  vg_grid_type :: GridType
  vg_model_name :: string
  vg_top :: "real list"
  vg_botm :: "real list list"
  vg_idomain :: "int list list"
  vg_vertices :: "(real \<times> real) list"
  cell2d :: "nat list list"
  vg_nlay :: "int option"
  ncpl :: "int list option"

text \<open>
  \<^verbatim>\<open>VertexModelGrid.__init__\<close>: the grid is unlayered exactly when \<^verbatim>\<open>nlay is None\<close>.
\<close>

definition VertexModelGrid_init ::
  "real list \<Rightarrow> real list list \<Rightarrow> int list list \<Rightarrow> (real \<times> real) list \<Rightarrow> nat list list
    \<Rightarrow> int option \<Rightarrow> int list option \<Rightarrow> VertexModelGrid" where
  "VertexModelGrid_init top0 botm0 idomain0 vertices0 cell2d0 nlay0 ncpl0 =
     \<lparr> vg_grid_type = (if nlay0 = None then unlayered_vertex else layered_vertex),
       vg_model_name = [],
       vg_top = top0, vg_botm = botm0, vg_idomain = idomain0,
       vg_vertices = vertices0, cell2d = cell2d0, vg_nlay = nlay0, ncpl = ncpl0 \<rparr>"

text \<open>
  \<^verbatim>\<open>VertexModelGrid.num_cells_per_layer\<close>. The message is the source's format string
  filled with \<^verbatim>\<open>self.model_name\<close>. A chain of \<^verbatim>\<open>if/elif\<close> with no \<^verbatim>\<open>else\<close> falls
  through to \<^verbatim>\<open>return None\<close>, here \<open>Inr None\<close>.
\<close>

definition num_cells_per_layer_msg :: "string \<Rightarrow> string" where
  "num_cells_per_layer_msg name =
     ''ERROR: Model \"'' @ name @ ''\" is unstructured and does not have a consistant number of cells per layer.''"

definition VertexModelGrid_num_cells_per_layer :: "VertexModelGrid \<Rightarrow> bool \<Rightarrow> error + int option" where
  "VertexModelGrid_num_cells_per_layer g active_only =
     (case grid_type_call (vg_grid_type g) of
        Inl e \<Rightarrow> Inl e
      | Inr t1 \<Rightarrow>
          if t1 = layered_vertex then Inl (NotImplementedError ''this feature is not yet implemented'')
          else (case grid_type_call (vg_grid_type g) of
                  Inl e \<Rightarrow> Inl e
                | Inr t2 \<Rightarrow>
                    if t2 = unlayered_vertex
                    then Inl (MFGridException_init (num_cells_per_layer_msg (vg_model_name g)))
                    else Inr None))"

text \<open>
  \<^verbatim>\<open>VertexModelGrid.num_cells\<close>: the loop \<^verbatim>\<open>for layer_cells in self.ncpl\<close> adds the
  entries up (iterating \<^verbatim>\<open>None\<close> raises \<^verbatim>\<open>TypeError\<close>); the unlayered branch raises
  \<^verbatim>\<open>NotImplementedError\<close>.
\<close>

definition VertexModelGrid_num_cells :: "VertexModelGrid \<Rightarrow> bool \<Rightarrow> error + int option" where
  "VertexModelGrid_num_cells g active_only =
     (if active_only then Inl (NotImplementedError ''this feature is not yet implemented'')
      else (case grid_type_call (vg_grid_type g) of
              Inl e \<Rightarrow> Inl e
            | Inr t1 \<Rightarrow>
                if t1 = layered_vertex then
                  (case ncpl g of
                     None \<Rightarrow> Inl (TypeError ''NoneType object is not iterable'')
                   | Some cs \<Rightarrow> Inr (Some (foldl (\<lambda>total_cells layer_cells. total_cells + layer_cells) 0 cs)))
                else (case grid_type_call (vg_grid_type g) of
                        Inl e \<Rightarrow> Inl e
                      | Inr t2 \<Rightarrow>
                          if t2 = unlayered_vertex
                          then Inl (NotImplementedError ''this feature is not yet implemented'')
                          else Inr None)))"

section \<open>Python strings\<close>

text \<open>
  The string operations the source uses, on \<open>string\<close> (a list of 8-bit characters):
  \<^verbatim>\<open>lower\<close>, \<^verbatim>\<open>upper\<close>, the substring test \<^verbatim>\<open>a in b\<close>, \<^verbatim>\<open>split()\<close> on white space,
  \<^verbatim>\<open>split(':')\<close>, \<^verbatim>\<open>replace("\n", "")\<close> and the decimal text of an integer.
\<close>

definition lower_char :: "char \<Rightarrow> char" where
  "lower_char c = (let n = (of_char c :: nat) in if 65 \<le> n \<and> n \<le> 90 then char_of (n + 32) else c)"

definition upper_char :: "char \<Rightarrow> char" where
  "upper_char c = (let n = (of_char c :: nat) in if 97 \<le> n \<and> n \<le> 122 then char_of (n - 32) else c)"

definition py_lower :: "string \<Rightarrow> string" where
  "py_lower s = map lower_char s"

definition py_upper :: "string \<Rightarrow> string" where
  "py_upper s = map upper_char s"

fun starts_with :: "string \<Rightarrow> string \<Rightarrow> bool" where
  "starts_with s [] = True"
| "starts_with [] (p # ps) = False"
| "starts_with (c # cs) (p # ps) = (c = p \<and> starts_with cs ps)"

text \<open>\<open>py_in a b\<close> is Python's \<^verbatim>\<open>a in b\<close> on strings.\<close>

fun py_in :: "string \<Rightarrow> string \<Rightarrow> bool" where
  "py_in a [] = (a = [])"
| "py_in a (c # cs) = (starts_with (c # cs) a \<or> py_in a cs)"

definition is_space :: "char \<Rightarrow> bool" where
  "is_space c = (let n = (of_char c :: nat) in n = 32 \<or> (9 \<le> n \<and> n \<le> 13) \<or> (28 \<le> n \<and> n \<le> 31))"

fun split_ws :: "string \<Rightarrow> string \<Rightarrow> string list" where
  "split_ws cur [] = (if cur = [] then [] else [rev cur])"
| "split_ws cur (c # cs) =
     (if is_space c then (if cur = [] then split_ws [] cs else rev cur # split_ws [] cs)
      else split_ws (c # cur) cs)"

definition py_split :: "string \<Rightarrow> string list" where
  "py_split s = split_ws [] s"

fun split_at :: "char \<Rightarrow> string \<Rightarrow> string \<Rightarrow> string list" where
  "split_at d cur [] = [rev cur]"
| "split_at d cur (c # cs) = (if c = d then rev cur # split_at d [] cs else split_at d (c # cur) cs)"

definition py_split_on :: "char \<Rightarrow> string \<Rightarrow> string list" where
  "py_split_on d s = split_at d [] s"

definition remove_newlines :: "string \<Rightarrow> string" where
  "remove_newlines s = filter (\<lambda>c. c \<noteq> CHR 0x0A) s"

fun str_of_nat :: "nat \<Rightarrow> string" where
  "str_of_nat n = (if n < 10 then [char_of (48 + n)] else str_of_nat (n div 10) @ [char_of (48 + n mod 10)])"

definition str_of_int :: "int \<Rightarrow> string" where
  "str_of_int i = (if i < 0 then CHR ''-'' # str_of_nat (nat (- i)) else str_of_nat (nat i))"

text \<open>\<^verbatim>\<open>'{}'.format(v)\<close> for \<^verbatim>\<open>v\<close> an integer or \<^verbatim>\<open>None\<close>.\<close>

definition format_int_option :: "int option \<Rightarrow> string" where
  "format_int_option v = (case v of None \<Rightarrow> ''None'' | Some i \<Rightarrow> str_of_int i)"

section \<open>What the spatial reference takes from outside the repository's files\<close>

text \<open>
  \<^verbatim>\<open>reference.py\<close> calls code that is not among the source files; each is a field of the
  environment, a parameter of every definition that reaches it:
  \<^item> \<open>get_url_text\<close>: \<^verbatim>\<open>flopy.utils.flopy_io.get_url_text\<close>, the text behind a URL or
    \<^verbatim>\<open>None\<close>;
  \<^item> \<open>pyproj_srs\<close>: \<^verbatim>\<open>pyproj.Proj(proj4_str, ...).srs\<close>, \<open>None\<close> when the import or the
    constructor raises;
  \<^item> \<open>int_of_str\<close>: Python's \<^verbatim>\<open>int\<close> on a string, \<open>None\<close> when it raises \<^verbatim>\<open>ValueError\<close>;
  \<^item> \<open>crs_new\<close>: the constructor \<^verbatim>\<open>crs(prj=..., epsg=...)\<close>, which reads the projection file
    or resolves the EPSG code and parses the text. Of the object it builds the model keeps
    the text it holds (\<^verbatim>\<open>wktstr\<close>), and whether building it raised;
  \<^item> \<open>new_grid\<close>: \<^verbatim>\<open>StructuredModelGrid(delc, delr, top=0, botm=[0], idomain=1)\<close> of the
    module \<^verbatim>\<open>structuredmodelgrid\<close>, which \<^verbatim>\<open>reference.py\<close> imports;
  \<^item> \<open>python_runs\<close>: what the Python interpreter makes of a cache file \<^verbatim>\<open>epsgref.py\<close>
    one of whose entries has a quote, a backslash or a line break in its text (see the
    resolver): the dictionary \<^verbatim>\<open>prj\<close> it binds, or \<open>None\<close> when the import raises.
  Of that grid class the spatial reference reads \<^verbatim>\<open>nrow\<close>, \<^verbatim>\<open>ncol\<close>, and the arrays
  \<^verbatim>\<open>xedges\<close>/\<^verbatim>\<open>yedges\<close> and \<^verbatim>\<open>xcenters\<close>/\<^verbatim>\<open>ycenters\<close>: each pair is two float arrays
  of one shape, held here as one two-dimensional array of points (a list of rows).
\<close>

record grid_view =
  mg_nrow :: int
  mg_ncol :: int
  mg_edges :: "(real \<times> real) list list"
  mg_centers :: "(real \<times> real) list list"

text \<open>
  A line of the cache file: \<^verbatim>\<open>prj = {}\<close>, or \<^verbatim>\<open>prj[epsg] = 'text'\<close> with the text as it
  was written between the quotes.
\<close>

datatype epsg_line = PrjInit | PrjEntry int string

record environ =
  get_url_text :: "string \<Rightarrow> string option"
  pyproj_srs :: "string \<Rightarrow> string option"
  int_of_str :: "string \<Rightarrow> int option"
  crs_new :: "string option \<Rightarrow> int option \<Rightarrow> error + string option"
  new_grid :: "real list \<Rightarrow> real list \<Rightarrow> grid_view"
  python_runs :: "epsg_line list \<Rightarrow> (int \<rightharpoonup> string) option"

section \<open>The remote lookup\<close>

text \<open>
  \<^verbatim>\<open>get_spatialreference(epsg, text)\<close> asks for the categories \<^verbatim>\<open>epsg\<close> and \<^verbatim>\<open>esri\<close> in
  turn and stops at the first answer. The model returns the result together with the URLs
  it requested, in order.
\<close>

definition ref_url :: "string \<Rightarrow> int option \<Rightarrow> string \<Rightarrow> string" where
  "ref_url cat epsg text =
     ''http://spatialreference.org/ref/'' @ cat @ ''/'' @ format_int_option epsg @ ''/'' @ text @ ''/''"

fun fetch_first :: "environ \<Rightarrow> string list \<Rightarrow> string option \<times> string list" where
  "fetch_first env [] = (None, [])"
| "fetch_first env (u # us) =
     (case get_url_text env u of
        Some r \<Rightarrow> (Some r, [u])
      | None \<Rightarrow> (case fetch_first env us of (r, asked) \<Rightarrow> (r, u # asked)))"

definition get_spatialreference :: "environ \<Rightarrow> int option \<Rightarrow> string \<Rightarrow> string option \<times> string list" where
  "get_spatialreference env epsg text =
     (case fetch_first env (map (\<lambda>cat. ref_url cat epsg text) [''epsg'', ''esri'']) of
        (Some r, asked) \<Rightarrow> (Some (remove_newlines r), asked)
      | (None, asked) \<Rightarrow>
          if text \<noteq> ''epsg'' then (None, asked)
          else (Some (''+init=epsg:'' @ format_int_option epsg), asked))"

definition getproj4 :: "environ \<Rightarrow> int option \<Rightarrow> string option" where
  "getproj4 env epsg = fst (get_spatialreference env epsg ''proj4'')"

section \<open>The spatial reference of flopy/grid/reference.py\<close>

text \<open>
  An attribute the source writes with a leading underscore (\<^verbatim>\<open>_xul\<close>) has the prefix
  \<open>u_\<close> here (\<open>u_xul\<close>); a property of the class is the function of the property's name
  with the suffix \<open>_get\<close>. \<^verbatim>\<open>None\<close> is \<open>None\<close>. The six cached families are the last
  six fields.
\<close>

datatype origin = ul | ll

record SpatialReference =
  modelgrid :: grid_view
  origin_loc :: origin
  u_xul :: "real option"
  u_yul :: "real option"
  u_xll :: "real option"
  u_yll :: "real option"
  rotation :: real
  u_length_multiplier :: "real option"
  u_lenuni :: int
  u_units :: "string option"
  u_proj4_str :: "string option"
  u_epsg :: "int option"
  prj :: "string option"
  u_wkt :: "string option"
  crs :: "string option"
  u_yedge :: "real list"
  u_xedges :: "real list list option"
  u_yedges :: "real list list option"
  u_xcenters :: "real list list option"
  u_ycenters :: "real list list option"
  u_vertices :: "(real \<times> real) list list option"
  u_gridlines :: "((real \<times> real) \<times> (real \<times> real)) list option"

definition supported_units :: "string list" where
  "supported_units = [''feet'', ''meters'']"

text \<open>\<^verbatim>\<open>lenuni_text\<close>, the inverse of \<^verbatim>\<open>lenuni_values\<close>; a missing key raises \<^verbatim>\<open>KeyError\<close>.\<close>

definition lenuni_text :: "int \<Rightarrow> error + string" where
  "lenuni_text k =
     (if k = 0 then Inr ''undefined'' else if k = 1 then Inr ''feet''
      else if k = 2 then Inr ''meters'' else if k = 3 then Inr ''centimeters''
      else Inl (KeyError (str_of_int k)))"

definition model_length_units :: "SpatialReference \<Rightarrow> error + string" where
  "model_length_units sr = lenuni_text (u_lenuni sr)"

text \<open>
  The property \<^verbatim>\<open>proj4_str\<close>. When \<^verbatim>\<open>_proj4_str\<close> names an EPSG code the getter also
  writes \<^verbatim>\<open>self._epsg\<close>, so it returns the object as well. \<^verbatim>\<open>tmp[0]\<close> exists whenever
  the branch is taken (a string that holds \<^verbatim>\<open>epsg\<close> has a word that holds it); the
  model still answers the empty list with \<^verbatim>\<open>IndexError\<close>.
\<close>

definition proj4_str_get :: "environ \<Rightarrow> SpatialReference \<Rightarrow> error + (string option \<times> SpatialReference)" where
  "proj4_str_get env sr =
     (case u_proj4_str sr of
        Some p \<Rightarrow>
          if py_in ''epsg'' (py_lower p) then
            (let proj4_str = (if \<not> py_in ''init'' (py_lower p) then ''+init='' @ p else p);
                 tmp = filter (\<lambda>i. py_in ''epsg'' (py_lower i)) (py_split p)
             in case tmp of
                  [] \<Rightarrow> Inl (IndexError ''list index out of range'')
                | t # _ \<Rightarrow>
                    (case py_split_on CHR '':'' t of
                       _ # code # _ \<Rightarrow>
                         (case int_of_str env code of
                            None \<Rightarrow> Inl (ValueError ''invalid literal for int()'')
                          | Some n \<Rightarrow> Inr (Some proj4_str, sr\<lparr>u_epsg := Some n\<rparr>))
                     | _ \<Rightarrow> Inl (IndexError ''list index out of range'')))
          else Inr (Some p, sr)
      | None \<Rightarrow>
          (case u_epsg sr of
             Some n \<Rightarrow> Inr (Some (''+init=epsg:'' @ str_of_int n), sr)
           | None \<Rightarrow> Inr (None, sr)))"

text \<open>
  \<^verbatim>\<open>_parse_units_from_proj4\<close>: the whole body stands in a \<^verbatim>\<open>try\<close> whose bare
  \<^verbatim>\<open>except\<close> passes, so every exception (also \<^verbatim>\<open>None.upper()\<close> when there is no
  string) ends in \<^verbatim>\<open>None\<close>. This function and the readers built on it return the value
  read; the write of \<^verbatim>\<open>_epsg\<close> by \<open>proj4_str_get\<close> changes no value they read
  (\<open>proj4_str_get\<close> does not look at \<^verbatim>\<open>_epsg\<close> when \<^verbatim>\<open>_proj4_str\<close> is set).
\<close>

definition parse_units_from_proj4 :: "environ \<Rightarrow> SpatialReference \<Rightarrow> string option" where
  "parse_units_from_proj4 env sr =
     (case proj4_str_get env sr of
        Inl e \<Rightarrow> None
      | Inr (None, _) \<Rightarrow> None
      | Inr (Some p, _) \<Rightarrow>
          (case (if py_in ''EPSG'' (py_upper p) then pyproj_srs env p else Some p) of
             None \<Rightarrow> None
           | Some proj_str \<Rightarrow>
               if py_in ''units=m'' proj_str then Some ''meters''
               else if py_in ''units=ft'' proj_str \<or> py_in ''units=us-ft'' proj_str
                       \<or> py_in ''to_meters:0.3048'' proj_str then Some ''feet''
               else None))"

definition units_get :: "environ \<Rightarrow> SpatialReference \<Rightarrow> error + string" where
  "units_get env sr =
     (let units = (case u_units sr of Some u \<Rightarrow> Some (py_lower u) | None \<Rightarrow> parse_units_from_proj4 env sr);
          units = (case units of None \<Rightarrow> ''meters'' | Some u \<Rightarrow> u)
      in if units \<in> set supported_units then Inr units else Inl AssertionError)"

text \<open>
  The property \<^verbatim>\<open>length_multiplier\<close>; \<open>Inr None\<close> is the \<^verbatim>\<open>None\<close> it returns when no
  branch assigns \<^verbatim>\<open>lm\<close>.
\<close>

definition length_multiplier_get :: "environ \<Rightarrow> SpatialReference \<Rightarrow> error + real option" where
  "length_multiplier_get env sr =
     (case u_length_multiplier sr of
        Some lm \<Rightarrow> Inr (Some lm)
      | None \<Rightarrow>
          (case model_length_units sr of
             Inl e \<Rightarrow> Inl e
           | Inr mlu \<Rightarrow>
               if mlu = ''feet'' then
                 (case units_get env sr of
                    Inl e \<Rightarrow> Inl e
                  | Inr u \<Rightarrow> if u = ''meters'' then Inr (Some 0.3048)
                            else if u = ''feet'' then Inr (Some 1) else Inr None)
               else if mlu = ''meters'' then
                 (case units_get env sr of
                    Inl e \<Rightarrow> Inl e
                  | Inr u \<Rightarrow> if u = ''feet'' then Inr (Some (1 / 0.3048))
                            else if u = ''meters'' then Inr (Some 1) else Inr None)
               else if mlu = ''centimeters'' then
                 (case units_get env sr of
                    Inl e \<Rightarrow> Inl e
                  | Inr u \<Rightarrow> if u = ''meters'' then Inr (Some (1 / 100))
                            else if u = ''feet'' then Inr (Some (1 / 30.48)) else Inr None)
               else Inr (Some 1)))"

definition theta :: "SpatialReference \<Rightarrow> real" where
  "theta sr = - rotation sr * pi / 180"

text \<open>
  \<open>lm_times\<close> is the product \<^verbatim>\<open>f(self.theta) * self._yedge[0] * self.length_multiplier\<close>
  of the corner properties: \<^verbatim>\<open>_yedge[0]\<close> raises \<^verbatim>\<open>IndexError\<close> on an empty array, and
  a multiplier that is \<^verbatim>\<open>None\<close> raises \<^verbatim>\<open>TypeError\<close>.
\<close>

definition lm_times :: "environ \<Rightarrow> SpatialReference \<Rightarrow> real \<Rightarrow> error + real" where
  "lm_times env sr f =
     (case u_yedge sr of
        [] \<Rightarrow> Inl (IndexError ''index 0 is out of bounds'')
      | y0 # _ \<Rightarrow>
          (case length_multiplier_get env sr of
             Inl e \<Rightarrow> Inl e
           | Inr None \<Rightarrow> Inl (TypeError ''unsupported operand type(s) for *'')
           | Inr (Some lm) \<Rightarrow> Inr (f * y0 * lm)))"

definition xll_get :: "environ \<Rightarrow> SpatialReference \<Rightarrow> error + real" where
  "xll_get env sr =
     (case origin_loc sr of
        ll \<Rightarrow> Inr (case u_xll sr of Some v \<Rightarrow> v | None \<Rightarrow> 0)
      | ul \<Rightarrow>
          (case lm_times env sr (sin (theta sr)) of
             Inl e \<Rightarrow> Inl e
           | Inr d \<Rightarrow>
               (case u_xul sr of
                  None \<Rightarrow> Inl (TypeError ''unsupported operand type(s) for -'')
                | Some v \<Rightarrow> Inr (v - d))))"

definition yll_get :: "environ \<Rightarrow> SpatialReference \<Rightarrow> error + real" where
  "yll_get env sr =
     (case origin_loc sr of
        ll \<Rightarrow> Inr (case u_yll sr of Some v \<Rightarrow> v | None \<Rightarrow> 0)
      | ul \<Rightarrow>
          (case lm_times env sr (cos (theta sr)) of
             Inl e \<Rightarrow> Inl e
           | Inr d \<Rightarrow>
               (case u_yul sr of
                  None \<Rightarrow> Inl (TypeError ''unsupported operand type(s) for -'')
                | Some v \<Rightarrow> Inr (v - d))))"

definition xul_get :: "environ \<Rightarrow> SpatialReference \<Rightarrow> error + real" where
  "xul_get env sr =
     (case origin_loc sr of
        ll \<Rightarrow>
          (case lm_times env sr (sin (theta sr)) of
             Inl e \<Rightarrow> Inl e
           | Inr d \<Rightarrow>
               (case u_xll sr of
                  None \<Rightarrow> Inl (TypeError ''unsupported operand type(s) for +'')
                | Some v \<Rightarrow> Inr (v + d)))
      | ul \<Rightarrow> Inr (case u_xul sr of Some v \<Rightarrow> v | None \<Rightarrow> 0))"

definition yul_get :: "environ \<Rightarrow> SpatialReference \<Rightarrow> error + real" where
  "yul_get env sr =
     (case origin_loc sr of
        ll \<Rightarrow>
          (case lm_times env sr (cos (theta sr)) of
             Inl e \<Rightarrow> Inl e
           | Inr d \<Rightarrow>
               (case u_yll sr of
                  None \<Rightarrow> Inl (TypeError ''unsupported operand type(s) for +'')
                | Some v \<Rightarrow> Inr (v + d)))
      | ul \<Rightarrow> Inr (case u_yul sr of Some v \<Rightarrow> v | None \<Rightarrow> 0))"

subsection \<open>The transform\<close>

text \<open>
  \<^verbatim>\<open>SpatialReference.rotate(x, y, theta, xorigin, yorigin)\<close>, \<^verbatim>\<open>theta\<close> in degrees
  (\<open>rotate\<close> is a function on lists in HOL, hence the suffix).
\<close>

definition rotate_xy :: "real \<Rightarrow> real \<Rightarrow> real \<Rightarrow> real \<Rightarrow> real \<Rightarrow> real \<times> real" where
  "rotate_xy x y theta_deg xorigin yorigin =
     (let th = theta_deg * pi / 180;
          xrot = xorigin + cos th * (x - xorigin) - sin th * (y - yorigin);
          yrot = yorigin + sin th * (x - xorigin) + cos th * (y - yorigin)
      in (xrot, yrot))"

text \<open>
  The arithmetic of \<^verbatim>\<open>transform\<close> on one point, over the reals. Forward: scale, add the
  lower-left corner, rotate about it. Inverse: rotate back, subtract the corner, divide.
\<close>

definition forward_point :: "real \<Rightarrow> real \<Rightarrow> real \<Rightarrow> real \<Rightarrow> real \<times> real \<Rightarrow> real \<times> real" where
  "forward_point lm xo yo rot p =
     (let x = fst p * lm; y = snd p * lm;
          x = x + xo; y = y + yo
      in rotate_xy x y rot xo yo)"

definition inverse_point :: "real \<Rightarrow> real \<Rightarrow> real \<Rightarrow> real \<Rightarrow> real \<times> real \<Rightarrow> real \<times> real" where
  "inverse_point lm xo yo rot p =
     (case rotate_xy (fst p) (snd p) (- rot) xo yo of
        (x, y) \<Rightarrow> (let x = x - xo; y = y - yo in (x / lm, y / lm)))"

text \<open>
  What \<^verbatim>\<open>transform\<close> reads of the object, in the order it reads it: forward, the
  multiplier first (\<^verbatim>\<open>x *= None\<close> raises \<^verbatim>\<open>TypeError\<close>), then the corner; inverse, the
  corner first. The result is \<open>(lm, xll, yll)\<close>.
\<close>

definition transform_reads :: "environ \<Rightarrow> SpatialReference \<Rightarrow> bool \<Rightarrow> error + (real \<times> real \<times> real)" where
  "transform_reads env sr inverse_flag =
     (if \<not> inverse_flag then
        (case length_multiplier_get env sr of
           Inl e \<Rightarrow> Inl e
         | Inr None \<Rightarrow> Inl (TypeError ''unsupported operand type(s) for *='')
         | Inr (Some lm) \<Rightarrow>
             (case xll_get env sr of
                Inl e \<Rightarrow> Inl e
              | Inr xo \<Rightarrow>
                  (case yll_get env sr of
                     Inl e \<Rightarrow> Inl e
                   | Inr yo \<Rightarrow> Inr (lm, xo, yo))))
      else
        (case xll_get env sr of
           Inl e \<Rightarrow> Inl e
         | Inr xo \<Rightarrow>
             (case yll_get env sr of
                Inl e \<Rightarrow> Inl e
              | Inr yo \<Rightarrow>
                  (case length_multiplier_get env sr of
                     Inl e \<Rightarrow> Inl e
                   | Inr None \<Rightarrow> Inl (TypeError ''unsupported operand type(s) for /='')
                   | Inr (Some lm) \<Rightarrow> Inr (lm, xo, yo)))))"

text \<open>
  \<^verbatim>\<open>transform(x, y, inverse)\<close> on two scalars. In the inverse direction the rotated
  coordinates are numpy floats, whose division by zero is no exception but an infinity or
  a NaN: no real number, and \<open>ZeroDivisionError\<close> stands for it here.
\<close>

definition transform :: "environ \<Rightarrow> SpatialReference \<Rightarrow> real \<Rightarrow> real \<Rightarrow> bool \<Rightarrow> error + (real \<times> real)" where
  "transform env sr x y inverse_flag =
     (case transform_reads env sr inverse_flag of
        Inl e \<Rightarrow> Inl e
      | Inr (lm, xo, yo) \<Rightarrow>
          if \<not> inverse_flag then Inr (forward_point lm xo yo (rotation sr) (x, y))
          else if lm = 0 then Inl (ZeroDivisionError ''division by zero: inf or nan'')
          else Inr (inverse_point lm xo yo (rotation sr) (x, y)))"

text \<open>
  \<^verbatim>\<open>transform\<close> on the two float arrays of a grid family (one shape, copied before any
  arithmetic): the same reads, then the arithmetic on every point.
\<close>

definition transform_points ::
  "environ \<Rightarrow> SpatialReference \<Rightarrow> (real \<times> real) list list \<Rightarrow> bool \<Rightarrow> error + (real \<times> real) list list" where
  "transform_points env sr pts inverse_flag =
     (case transform_reads env sr inverse_flag of
        Inl e \<Rightarrow> Inl e
      | Inr (lm, xo, yo) \<Rightarrow>
          if \<not> inverse_flag then Inr (map (map (forward_point lm xo yo (rotation sr))) pts)
          else if lm = 0 then Inl (ZeroDivisionError ''division by zero: inf or nan'')
          else Inr (map (map (inverse_point lm xo yo (rotation sr))) pts))"

subsection \<open>Construction and mutation\<close>

text \<open>
  \<^verbatim>\<open>crs(prj=prj, epsg=epsg)\<close>: with neither a projection file nor a code the constructor
  leaves \<^verbatim>\<open>wktstr\<close> at \<^verbatim>\<open>None\<close> and parses nothing; otherwise its outcome is the
  environment's.
\<close>

definition crs_init :: "environ \<Rightarrow> string option \<Rightarrow> int option \<Rightarrow> error + string option" where
  "crs_init env prj0 epsg0 = (if prj0 = None \<and> epsg0 = None then Inr None else crs_new env prj0 epsg0)"

definition reset_caches :: "SpatialReference \<Rightarrow> SpatialReference" where
  "reset_caches sr =
     sr\<lparr> u_xedges := None, u_yedges := None, u_ycenters := None, u_xcenters := None,
         u_vertices := None, u_gridlines := None \<rparr>"

definition both_x_msg :: string where
  "both_x_msg = ''Both xul and xll entered. Please enter either xul, yul or xll, yll.''"

definition both_y_msg :: string where
  "both_y_msg = ''Both yul and yll entered. Please enter either xul, yul or xll, yll.''"

text \<open>\<^verbatim>\<open>np.add.accumulate\<close>: the running sums.\<close>

fun accumulate :: "real \<Rightarrow> real list \<Rightarrow> real list" where
  "accumulate acc [] = []"
| "accumulate acc (d # ds) = (acc + d) # accumulate (acc + d) ds"

text \<open>
  \<^verbatim>\<open>set_spatialreference(delc, xul, yul, xll, yll, rotation)\<close>. The assignment
  \<^verbatim>\<open>self.rotation = rotation\<close> goes through \<^verbatim>\<open>__setattr__\<close>, whose branch for
  \<^verbatim>\<open>rotation\<close> stores the number and resets the caches; the other assignments are to
  names \<^verbatim>\<open>__setattr__\<close> only stores.
\<close>

definition set_spatialreference ::
  "SpatialReference \<Rightarrow> real list \<Rightarrow> real option \<Rightarrow> real option \<Rightarrow> real option \<Rightarrow> real option \<Rightarrow> real
    \<Rightarrow> error + SpatialReference" where
  "set_spatialreference sr delc0 xul0 yul0 xll0 yll0 rotation0 =
     (if xul0 \<noteq> None \<and> xll0 \<noteq> None then Inl (ValueError both_x_msg)
      else if yul0 \<noteq> None \<and> yll0 \<noteq> None then Inl (ValueError both_y_msg)
      else
        (let none = (xul0 = None \<and> yul0 = None \<and> xll0 = None \<and> yll0 = None);
             loc = (if none then ul else if xll0 \<noteq> None then ll else ul);
             xul1 = (if none then Some 0 else xul0);
             yul1 = (if none then Some (sum_list delc0) else yul0);
             length_y = sum_list delc0
         in Inr ((reset_caches (sr\<lparr> origin_loc := loc, rotation := rotation0 \<rparr>))
              \<lparr> u_xll := Some (case xll0 of Some v \<Rightarrow> v | None \<Rightarrow> 0),
                u_yll := Some (case yll0 of Some v \<Rightarrow> v | None \<Rightarrow> 0),
                u_xul := Some (case xul1 of Some v \<Rightarrow> v | None \<Rightarrow> 0),
                u_yul := Some (case yul1 of Some v \<Rightarrow> v | None \<Rightarrow> 0),
                u_yedge := length_y # map (\<lambda>a. length_y - a) (accumulate 0 delc0) \<rparr>)))"

text \<open>
  \<^verbatim>\<open>SpatialReference.__init__\<close>. The assignment \<^verbatim>\<open>self.prj = prj\<close> takes the \<^verbatim>\<open>prj\<close>
  branch of \<^verbatim>\<open>__setattr__\<close>, which builds the \<^verbatim>\<open>crs\<close> object; the constructor builds
  it once more a line later. The object has no field before the constructor writes it, so
  the record it starts from is of no consequence where \<^verbatim>\<open>set_spatialreference\<close>
  overwrites it.
\<close>

definition SpatialReference_init ::
  "environ \<Rightarrow> real list \<Rightarrow> real list \<Rightarrow> grid_view option \<Rightarrow> int
    \<Rightarrow> real option \<Rightarrow> real option \<Rightarrow> real option \<Rightarrow> real option \<Rightarrow> real
    \<Rightarrow> string option \<Rightarrow> int option \<Rightarrow> string option \<Rightarrow> string option \<Rightarrow> real option
    \<Rightarrow> error + SpatialReference" where
  "SpatialReference_init env delr0 delc0 grid lenuni xul0 yul0 xll0 yll0 rotation0
       proj4_str0 epsg0 prj0 units0 length_multiplier0 =
     (case crs_init env prj0 epsg0 of
        Inl e \<Rightarrow> Inl e
      | Inr c \<Rightarrow>
          set_spatialreference
            \<lparr> modelgrid = (case grid of Some g \<Rightarrow> g | None \<Rightarrow> new_grid env delc0 delr0),
              origin_loc = ul,
              u_xul = None, u_yul = None, u_xll = None, u_yll = None,
              rotation = 0,
              u_length_multiplier = length_multiplier0,
              u_lenuni = lenuni,
              u_units = units0,
              u_proj4_str = (if epsg0 \<noteq> None then getproj4 env epsg0 else proj4_str0),
              u_epsg = epsg0,
              prj = prj0,
              u_wkt = None,
              crs = c,
              u_yedge = [],
              u_xedges = None, u_yedges = None, u_xcenters = None, u_ycenters = None,
              u_vertices = None, u_gridlines = None \<rparr>
            delc0 xul0 yul0 xll0 yll0 rotation0)"

text \<open>
  \<^verbatim>\<open>__setattr__(self, key, value)\<close>. An assignment is the attribute's name with a value
  of the type the class documents for it, so \<^verbatim>\<open>float(value)\<close> and \<^verbatim>\<open>int(value)\<close>
  return their argument. The branches stand in the source's order; every named branch
  leaves \<^verbatim>\<open>reset = True\<close>, and \<^verbatim>\<open>self._reset()\<close> is the method's last statement. Any
  other name takes the last branch, which stores the value and resets nothing: of those
  names the model has \<^verbatim>\<open>origin_loc\<close> and \<^verbatim>\<open>_yedge\<close> (\<^verbatim>\<open>set_yedge\<close>).

  The result is the exception the statement raised (\<open>None\<close> when it completed) and the
  object as the statement left it: what a branch wrote before it raised stays written, and
  the reset it did not reach has not happened. The \<^verbatim>\<open>units\<close> branch asserts before it
  writes. The \<^verbatim>\<open>epsg\<close> branch writes \<^verbatim>\<open>_epsg\<close>, \<^verbatim>\<open>_units\<close> and \<^verbatim>\<open>_proj4_str\<close> and
  then builds the \<^verbatim>\<open>crs\<close> object, the \<^verbatim>\<open>prj\<close> branch writes \<^verbatim>\<open>prj\<close> and then builds it.
\<close>

datatype assignment =
    Set_xul real
  | Set_yul real
  | Set_xll real
  | Set_yll real
  | Set_length_multiplier real
  | Set_rotation real
  | Set_lenuni int
  | Set_units string
  | Set_proj4_str "string option"
  | Set_epsg "int option"
  | Set_prj "string option"
  | Set_origin_loc origin
  | Set_u_yedge "real list"

fun key :: "assignment \<Rightarrow> string" where
  "key (Set_xul v) = ''xul''"
| "key (Set_yul v) = ''yul''"
| "key (Set_xll v) = ''xll''"
| "key (Set_yll v) = ''yll''"
| "key (Set_length_multiplier v) = ''length_multiplier''"
| "key (Set_rotation v) = ''rotation''"
| "key (Set_lenuni v) = ''lenuni''"
| "key (Set_units v) = ''units''"
| "key (Set_proj4_str v) = ''proj4_str''"
| "key (Set_epsg v) = ''epsg''"
| "key (Set_prj v) = ''prj''"
| "key (Set_origin_loc v) = ''origin_loc''"
| "key (Set_u_yedge v) = ''_yedge''"

fun setattr :: "environ \<Rightarrow> SpatialReference \<Rightarrow> assignment \<Rightarrow> error option \<times> SpatialReference" where
  "setattr env sr (Set_xul v) = (None, reset_caches (sr\<lparr> u_xul := Some v, origin_loc := ul \<rparr>))"
| "setattr env sr (Set_yul v) = (None, reset_caches (sr\<lparr> u_yul := Some v, origin_loc := ul \<rparr>))"
| "setattr env sr (Set_xll v) = (None, reset_caches (sr\<lparr> u_xll := Some v, origin_loc := ll \<rparr>))"
| "setattr env sr (Set_yll v) = (None, reset_caches (sr\<lparr> u_yll := Some v, origin_loc := ll \<rparr>))"
| "setattr env sr (Set_length_multiplier v) = (None, reset_caches (sr\<lparr> u_length_multiplier := Some v \<rparr>))"
| "setattr env sr (Set_rotation v) = (None, reset_caches (sr\<lparr> rotation := v \<rparr>))"
| "setattr env sr (Set_lenuni v) = (None, reset_caches (sr\<lparr> u_lenuni := v \<rparr>))"
| "setattr env sr (Set_units v) =
     (let value = py_lower v
      in if value \<in> set supported_units then (None, reset_caches (sr\<lparr> u_units := Some value \<rparr>))
         else (Some AssertionError, sr))"
| "setattr env sr (Set_proj4_str v) =
     (let sr1 = sr\<lparr> u_proj4_str := v \<rparr>;
          sr2 = (case parse_units_from_proj4 env sr1 of
                   Some units \<Rightarrow> sr1\<lparr> u_units := Some units \<rparr>
                 | None \<Rightarrow> sr1)
      in (None, reset_caches (sr2\<lparr> u_epsg := None \<rparr>)))"
| "setattr env sr (Set_epsg v) =
     (let sr1 = sr\<lparr> u_epsg := v, u_units := None, u_proj4_str := getproj4 env v \<rparr>
      in case crs_init env None v of
           Inl e \<Rightarrow> (Some e, sr1)
         | Inr c \<Rightarrow> (None, reset_caches (sr1\<lparr> crs := c \<rparr>)))"
| "setattr env sr (Set_prj v) =
     (let sr1 = sr\<lparr> prj := v \<rparr>
      in case crs_init env v (u_epsg sr1) of
           Inl e \<Rightarrow> (Some e, sr1)
         | Inr c \<Rightarrow> (None, reset_caches (sr1\<lparr> crs := c \<rparr>)))"
| "setattr env sr (Set_origin_loc v) = (None, sr\<lparr> origin_loc := v \<rparr>)"
| "setattr env sr (Set_u_yedge v) = (None, sr\<lparr> u_yedge := v \<rparr>)"

subsection \<open>The cached edges and vertices\<close>

text \<open>
  numpy's \<^verbatim>\<open>a[i, j]\<close> on a two-dimensional array: a negative index counts from the end,
  an index outside the array raises \<^verbatim>\<open>IndexError\<close>.
\<close>

definition wrap_index :: "nat \<Rightarrow> int \<Rightarrow> error + nat" where
  "wrap_index n i =
     (let k = (if i < 0 then int n + i else i)
      in if 0 \<le> k \<and> k < int n then Inr (nat k) else Inl (IndexError ''index is out of bounds''))"

definition index2 :: "real list list \<Rightarrow> int \<Rightarrow> int \<Rightarrow> error + real" where
  "index2 a i j =
     (case wrap_index (length a) i of
        Inl e \<Rightarrow> Inl e
      | Inr r \<Rightarrow>
          (case wrap_index (length (a ! r)) j of
             Inl e \<Rightarrow> Inl e
           | Inr c \<Rightarrow> Inr (a ! r ! c)))"

text \<open>The results of a sequence of steps, or the first exception among them.\<close>

fun collect :: "(error + 'a) list \<Rightarrow> error + 'a list" where
  "collect [] = Inr []"
| "collect (Inl e # rs) = Inl e"
| "collect (Inr v # rs) = (case collect rs of Inl e \<Rightarrow> Inl e | Inr vs \<Rightarrow> Inr (v # vs))"

text \<open>
  The two arrays \<^verbatim>\<open>_set_xyedges\<close> assigns: one transform of the grid's edges, taken
  apart into its x and its y coordinates.
\<close>

definition xyedges :: "environ \<Rightarrow> SpatialReference \<Rightarrow> error + (real list list \<times> real list list)" where
  "xyedges env sr =
     (case transform_points env sr (mg_edges (modelgrid sr)) False of
        Inl e \<Rightarrow> Inl e
      | Inr pts \<Rightarrow> Inr (map (map fst) pts, map (map snd) pts))"

text \<open>
  The properties \<^verbatim>\<open>xedges\<close> and \<^verbatim>\<open>yedges\<close>: if this cache is \<^verbatim>\<open>None\<close>, fill
  both (\<^verbatim>\<open>_set_xyedges\<close>); return this one. Each returns the object too, since it may
  have filled the caches.
\<close>

definition xedges_get :: "environ \<Rightarrow> SpatialReference \<Rightarrow> error + (real list list \<times> SpatialReference)" where
  "xedges_get env sr =
     (case u_xedges sr of
        Some a \<Rightarrow> Inr (a, sr)
      | None \<Rightarrow>
          (case xyedges env sr of
             Inl e \<Rightarrow> Inl e
           | Inr (xe, ye) \<Rightarrow> Inr (xe, sr\<lparr> u_xedges := Some xe, u_yedges := Some ye \<rparr>)))"

definition yedges_get :: "environ \<Rightarrow> SpatialReference \<Rightarrow> error + (real list list \<times> SpatialReference)" where
  "yedges_get env sr =
     (case u_yedges sr of
        Some a \<Rightarrow> Inr (a, sr)
      | None \<Rightarrow>
          (case xyedges env sr of
             Inl e \<Rightarrow> Inl e
           | Inr (xe, ye) \<Rightarrow> Inr (ye, sr\<lparr> u_xedges := Some xe, u_yedges := Some ye \<rparr>)))"

text \<open>
  The five points \<^verbatim>\<open>get_vertices\<close> appends for the cell in row \<open>i\<close> and column \<open>j\<close>.
\<close>

definition point_at :: "real list list \<Rightarrow> real list list \<Rightarrow> int \<Rightarrow> int \<Rightarrow> error + (real \<times> real)" where
  "point_at xgrid ygrid i j =
     (case index2 xgrid i j of
        Inl e \<Rightarrow> Inl e
      | Inr x \<Rightarrow> (case index2 ygrid i j of Inl e \<Rightarrow> Inl e | Inr y \<Rightarrow> Inr (x, y)))"

definition cell_ring :: "real list list \<Rightarrow> real list list \<Rightarrow> int \<times> int \<Rightarrow> error + (real \<times> real) list" where
  "cell_ring xgrid ygrid ij =
     (case ij of (i, j) \<Rightarrow>
        collect [point_at xgrid ygrid i j,
                 point_at xgrid ygrid (i + 1) j,
                 point_at xgrid ygrid (i + 1) (j + 1),
                 point_at xgrid ygrid i (j + 1),
                 point_at xgrid ygrid i j])"

text \<open>
  \<^verbatim>\<open>get_vertices(i, j)\<close> for two index arrays of one length, given as the list of their
  pairs: the transposed array holds one ring of five points per pair. (For two scalars the
  method returns the one ring.)
\<close>

definition get_vertices ::
  "environ \<Rightarrow> SpatialReference \<Rightarrow> (int \<times> int) list \<Rightarrow> error + ((real \<times> real) list list \<times> SpatialReference)" where
  "get_vertices env sr ijs =
     (case xedges_get env sr of
        Inl e \<Rightarrow> Inl e
      | Inr (xgrid, sr1) \<Rightarrow>
          (case yedges_get env sr1 of
             Inl e \<Rightarrow> Inl e
           | Inr (ygrid, sr2) \<Rightarrow>
               (case collect (map (cell_ring xgrid ygrid) ijs) of
                  Inl e \<Rightarrow> Inl e
                | Inr rings \<Rightarrow> Inr (rings, sr2))))"

text \<open>
  \<^verbatim>\<open>range(n)\<close>, and the two raveled arrays of
  \<^verbatim>\<open>np.meshgrid(range(ncol), range(nrow))\<close> as the list of their pairs \<open>(ii, jj)\<close>: row
  by row, the columns of a row in order.
\<close>

definition py_range :: "int \<Rightarrow> int list" where
  "py_range n = map int [0 ..< nat n]"

definition meshgrid_ravel :: "int \<Rightarrow> int \<Rightarrow> (int \<times> int) list" where
  "meshgrid_ravel nc nr = concat (map (\<lambda>i. map (\<lambda>j. (i, j)) (py_range nc)) (py_range nr))"

text \<open>
  The property \<^verbatim>\<open>vertices\<close>: if the cache is \<^verbatim>\<open>None\<close>, \<^verbatim>\<open>_set_vertices\<close> fills it
  with the rings of all cells; return it.
\<close>

definition vertices_get ::
  "environ \<Rightarrow> SpatialReference \<Rightarrow> error + ((real \<times> real) list list \<times> SpatialReference)" where
  "vertices_get env sr =
     (case u_vertices sr of
        Some v \<Rightarrow> Inr (v, sr)
      | None \<Rightarrow>
          (case get_vertices env sr (meshgrid_ravel (mg_ncol (modelgrid sr)) (mg_nrow (modelgrid sr))) of
             Inl e \<Rightarrow> Inl e
           | Inr (rings, sr1) \<Rightarrow> Inr (rings, sr1\<lparr> u_vertices := Some rings \<rparr>)))"

text \<open>
  A grid's edge array is shaped to the grid when it has one row more than the grid and each
  row one point more than the grid has columns; a ring is closed when it has five points and
  ends where it starts.
\<close>

text \<open>An array of \<open>nr + 1\<close> rows of \<open>nc + 1\<close> entries each.\<close>

definition shaped :: "int \<Rightarrow> int \<Rightarrow> 'a list list \<Rightarrow> bool" where
  "shaped nr nc a = (int (length a) = nr + 1 \<and> list_all (\<lambda>row. int (length row) = nc + 1) a)"

definition edges_shaped :: "grid_view \<Rightarrow> bool" where
  "edges_shaped g =
     (int (length (mg_edges g)) = mg_nrow g + 1
      \<and> list_all (\<lambda>row. int (length row) = mg_ncol g + 1) (mg_edges g))"

definition closed_ring :: "(real \<times> real) list \<Rightarrow> bool" where
  "closed_ring ring = (length ring = 5 \<and> hd ring = last ring)"

subsection \<open>Cache states\<close>

text \<open>
  The attributes whose assignment is to invalidate the caches, and the state in which all six
  cached families are \<^verbatim>\<open>None\<close>.
\<close>

definition reset_keys :: "string list" where
  "reset_keys = [''xul'', ''yul'', ''xll'', ''yll'', ''rotation'', ''lenuni'', ''length_multiplier'',
                 ''units'', ''proj4_str'', ''epsg'', ''prj'']"

definition caches_cleared :: "SpatialReference \<Rightarrow> bool" where
  "caches_cleared sr =
     (u_xcenters sr = None \<and> u_ycenters sr = None \<and> u_xedges sr = None \<and> u_yedges sr = None
      \<and> u_vertices sr = None \<and> u_gridlines sr = None)"

section \<open>The EPSG resolver\<close>

text \<open>
  The local cache is the file \<^verbatim>\<open>epsgref.py\<close> in the first directory of \<^verbatim>\<open>sys.path\<close>
  whose name ends in \<^verbatim>\<open>site-packages\<close>. \<^verbatim>\<open>make\<close> writes its first line,
  \<^verbatim>\<open>prj = {}\<close>; \<^verbatim>\<open>add\<close> appends a line \<^verbatim>\<open>prj[epsg] = 'text'\<close>. The resolver reads
  the cache by importing the file as a module, and Python imports a module once in a
  process: the first import that succeeds runs the file and keeps the module, every later
  \<^verbatim>\<open>from epsgref import prj\<close> returns the dictionary of the module kept, whatever the file
  holds by then. The world is the directory (\<open>None\<close> when \<^verbatim>\<open>sys.path\<close> has none), the
  file (\<open>None\<close> when there is none), the dictionary of the module this process has
  imported (\<open>None\<close> before the first import that succeeds), and the URLs requested so far.
\<close>

record world =
  site_packages :: "string option"
  epsgref :: "epsg_line list option"
  loaded :: "(int \<rightharpoonup> string) option"
  requested :: "string list"

text \<open>
  Running the file. A text with no quote, backslash, line feed or carriage return is read
  back from between the quotes as it was written; the lines then run in order, an entry
  before \<^verbatim>\<open>prj = {}\<close> raises \<^verbatim>\<open>NameError\<close> and a file that never binds \<^verbatim>\<open>prj\<close> raises
  \<^verbatim>\<open>ImportError\<close> (both \<open>None\<close>). A file with any other text is Python's to read
  (most often a \<^verbatim>\<open>SyntaxError\<close>, which fails the import of the whole file): the
  environment says what it makes of it.
\<close>

definition plain :: "string \<Rightarrow> bool" where
  "plain t = list_all (\<lambda>c. c \<notin> set [CHR 0x27, CHR 0x5C, CHR 0x0A, CHR 0x0D]) t"

definition plain_line :: "epsg_line \<Rightarrow> bool" where
  "plain_line l = (case l of PrjInit \<Rightarrow> True | PrjEntry k t \<Rightarrow> plain t)"

fun run_lines :: "(int \<rightharpoonup> string) option \<Rightarrow> epsg_line list \<Rightarrow> (int \<rightharpoonup> string) option" where
  "run_lines d [] = d"
| "run_lines d (PrjInit # ls) = run_lines (Some Map.empty) ls"
| "run_lines d (PrjEntry k v # ls) =
     (case d of None \<Rightarrow> None | Some m \<Rightarrow> run_lines (Some (m(k \<mapsto> v))) ls)"

definition run_file :: "environ \<Rightarrow> epsg_line list \<Rightarrow> (int \<rightharpoonup> string) option" where
  "run_file env ls = (if list_all plain_line ls then run_lines None ls else python_runs env ls)"

text \<open>
  The text the cache file holds for a code: what a process that has not imported the
  module yet would read from it.
\<close>

definition file_holds :: "environ \<Rightarrow> world \<Rightarrow> int \<Rightarrow> string option" where
  "file_holds env w epsg =
     (case site_packages w of
        None \<Rightarrow> None
      | Some loc \<Rightarrow>
          (case epsgref w of
             None \<Rightarrow> None
           | Some ls \<Rightarrow> (case run_file env ls of None \<Rightarrow> None | Some d \<Rightarrow> d epsg)))"

text \<open>
  \<^verbatim>\<open>from epsgref import prj\<close> in this process: the dictionary of the module already
  imported, or else the file is run, and kept as the module if that succeeds.
\<close>

definition import_prj :: "environ \<Rightarrow> world \<Rightarrow> (int \<rightharpoonup> string) option \<times> world" where
  "import_prj env w =
     (case loaded w of
        Some d \<Rightarrow> (Some d, w)
      | None \<Rightarrow>
          (case epsgref w of
             None \<Rightarrow> (None, w)
           | Some ls \<Rightarrow>
               (case run_file env ls of
                  None \<Rightarrow> (None, w)
                | Some d \<Rightarrow> (Some d, w\<lparr> loaded := Some d \<rparr>))))"

text \<open>
  \<^verbatim>\<open>epsgRef.make\<close> and \<^verbatim>\<open>epsgRef.add\<close> (opening a missing file to append creates it).
  \<^verbatim>\<open>add\<close> writes to the file only; the text goes between the quotes as it is.
\<close>

definition make :: "world \<Rightarrow> world" where
  "make w = (if epsgref w = None then w\<lparr> epsgref := Some [PrjInit] \<rparr> else w)"

definition add :: "world \<Rightarrow> int \<Rightarrow> string \<Rightarrow> world" where
  "add w epsg text =
     w\<lparr> epsgref := Some ((case epsgref w of None \<Rightarrow> [] | Some ls \<Rightarrow> ls) @ [PrjEntry epsg text]) \<rparr>"

text \<open>
  \<^verbatim>\<open>getprj(epsg, addlocalreference=True, text='esriwkt')\<close>. \<^verbatim>\<open>epsgRef()\<close> raises
  \<^verbatim>\<open>IndexError\<close> when there is no \<^verbatim>\<open>site-packages\<close> directory. The \<^verbatim>\<open>try\<close> imports the
  dictionary and looks the code up; its bare \<^verbatim>\<open>except\<close> calls \<^verbatim>\<open>make\<close>. The remote lookup
  runs only if that left \<^verbatim>\<open>wktstr\<close> at \<^verbatim>\<open>None\<close>; whatever text there is then is appended
  to the file if \<^verbatim>\<open>addlocalreference\<close> is true.
\<close>

definition getprj :: "environ \<Rightarrow> world \<Rightarrow> int \<Rightarrow> bool \<Rightarrow> string \<Rightarrow> (error + string option) \<times> world" where
  "getprj env w epsg addlocalreference text =
     (case site_packages w of
        None \<Rightarrow> (Inl (IndexError ''list index out of range''), w)
      | Some loc \<Rightarrow>
          (case (case import_prj env w of
                   (Some d, w0) \<Rightarrow> (d epsg, w0)
                 | (None, w0) \<Rightarrow> (None, make w0)) of
             (wktstr, w1) \<Rightarrow>
               (case (case wktstr of
                        Some t \<Rightarrow> (Some t, w1)
                      | None \<Rightarrow>
                          (case get_spatialreference env (Some epsg) text of
                             (r, asked) \<Rightarrow> (r, w1\<lparr> requested := requested w1 @ asked \<rparr>))) of
                  (wktstr2, w2) \<Rightarrow>
                    (case wktstr2 of
                       Some t \<Rightarrow> (Inr (Some t), if addlocalreference then add w2 epsg t else w2)
                     | None \<Rightarrow> (Inr None, w2)))))"

section \<open>The transform on the caller's arrays\<close>

text \<open>
  To see what \<^verbatim>\<open>transform\<close> does to its arguments, an argument is a Python float, or a
  reference to a list or to a numpy array of floats. The heap holds the lists and arrays:
  an address is a position in it, a new object goes to its end. Arrays are
  one-dimensional, so two of them combine when their lengths agree or one has a single
  entry (numpy's broadcasting); a float array of no dimension is an array of one entry.
\<close>

datatype pyarg = Scalar real | PyList nat | NdArray nat

type_synonym heap = "real list list"

text \<open>A step returns its result or the exception it raised, and the heap as it left it.\<close>

type_synonym 'a outcome = "(error + 'a) \<times> heap"

definition and_then :: "'a outcome \<Rightarrow> ('a \<Rightarrow> heap \<Rightarrow> 'b outcome) \<Rightarrow> 'b outcome" where
  "and_then m f = (case m of (Inl e, h) \<Rightarrow> (Inl e, h) | (Inr v, h) \<Rightarrow> f v h)"

definition is_scalar :: "pyarg \<Rightarrow> bool" where
  "is_scalar v = (case v of Scalar r \<Rightarrow> True | _ \<Rightarrow> False)"

text \<open>
  The entries at an address. A Python reference always refers to an object; an address
  past the end of the heap, which no reference is, reads as no entries.
\<close>

definition deref :: "heap \<Rightarrow> nat \<Rightarrow> real list" where
  "deref h a = (if a < length h then h ! a else [])"

text \<open>\<^verbatim>\<open>np.array(v)\<close>: a new array with the entries of the list or array, or the one float.\<close>

definition np_array :: "pyarg \<Rightarrow> heap \<Rightarrow> pyarg outcome" where
  "np_array v h =
     (case v of
        Scalar r \<Rightarrow> (Inr (NdArray (length h)), h @ [[r]])
      | PyList a \<Rightarrow> (Inr (NdArray (length h)), h @ [deref h a])
      | NdArray a \<Rightarrow> (Inr (NdArray (length h)), h @ [deref h a]))"

text \<open>\<^verbatim>\<open>v.copy()\<close>: a new list for a list, a new array for an array; a float has no such method.\<close>

definition py_copy :: "pyarg \<Rightarrow> heap \<Rightarrow> pyarg outcome" where
  "py_copy v h =
     (case v of
        Scalar r \<Rightarrow> (Inl (AttributeError ''float object has no attribute copy''), h)
      | PyList a \<Rightarrow> (Inr (PyList (length h)), h @ [deref h a])
      | NdArray a \<Rightarrow> (Inr (NdArray (length h)), h @ [deref h a]))"

text \<open>
  The augmented assignments \<^verbatim>\<open>v *= c\<close>, \<^verbatim>\<open>v += c\<close>, \<^verbatim>\<open>v -= c\<close> with a float \<open>c\<close>: a
  float is rebound to the new value, an array is changed in place, a list raises
  \<^verbatim>\<open>TypeError\<close>.
\<close>

definition in_place :: "(real \<Rightarrow> real) \<Rightarrow> pyarg \<Rightarrow> heap \<Rightarrow> pyarg outcome" where
  "in_place f v h =
     (case v of
        Scalar r \<Rightarrow> (Inr (Scalar (f r)), h)
      | NdArray a \<Rightarrow> (Inr (NdArray a), h[a := map f (deref h a)])
      | PyList a \<Rightarrow> (Inl (TypeError ''unsupported operand for a list and a float''), h))"

text \<open>
  \<^verbatim>\<open>v /= c\<close> on what \<^verbatim>\<open>rotate\<close> returned, numpy floats or arrays: division by zero
  gives no real number (see \<open>transform\<close>).
\<close>

definition in_place_div :: "real \<Rightarrow> pyarg \<Rightarrow> heap \<Rightarrow> pyarg outcome" where
  "in_place_div c v h =
     (if c = 0 then (Inl (ZeroDivisionError ''division by zero: inf or nan''), h)
      else in_place (\<lambda>r. r / c) v h)"

text \<open>The entries an operand of \<^verbatim>\<open>rotate\<close>'s arithmetic stands for; a list has none.\<close>

definition entries :: "heap \<Rightarrow> pyarg \<Rightarrow> error + real list" where
  "entries h v =
     (case v of
        Scalar r \<Rightarrow> Inr [r]
      | NdArray a \<Rightarrow> Inr (deref h a)
      | PyList a \<Rightarrow> Inl (TypeError ''unsupported operand type(s) for -: list and float''))"

definition broadcast :: "(real \<Rightarrow> real \<Rightarrow> 'a) \<Rightarrow> real list \<Rightarrow> real list \<Rightarrow> error + 'a list" where
  "broadcast f xs ys =
     (if length xs = length ys then Inr (map (\<lambda>(x, y). f x y) (zip xs ys))
      else if length xs = 1 then Inr (map (\<lambda>y. f (hd xs) y) ys)
      else if length ys = 1 then Inr (map (\<lambda>x. f x (hd ys)) xs)
      else Inl (ValueError ''operands could not be broadcast together''))"

text \<open>
  \<^verbatim>\<open>rotate\<close> on arguments: it changes neither, and returns two floats for two floats,
  two new arrays otherwise.
\<close>

definition rotate_args :: "pyarg \<Rightarrow> pyarg \<Rightarrow> real \<Rightarrow> real \<Rightarrow> real \<Rightarrow> heap \<Rightarrow> (pyarg \<times> pyarg) outcome" where
  "rotate_args x y theta_deg xorigin yorigin h =
     (case entries h x of
        Inl e \<Rightarrow> (Inl e, h)
      | Inr xs \<Rightarrow>
          (case entries h y of
             Inl e \<Rightarrow> (Inl e, h)
           | Inr ys \<Rightarrow>
               (case broadcast (\<lambda>a b. rotate_xy a b theta_deg xorigin yorigin) xs ys of
                  Inl e \<Rightarrow> (Inl e, h)
                | Inr ps \<Rightarrow>
                    if is_scalar x \<and> is_scalar y
                    then (Inr (Scalar (fst (hd ps)), Scalar (snd (hd ps))), h)
                    else (Inr (NdArray (length h), NdArray (Suc (length h))),
                          h @ [map fst ps, map snd ps]))))"

text \<open>The reads of the object, each where \<^verbatim>\<open>transform\<close> makes it.\<close>

definition read_multiplier :: "environ \<Rightarrow> SpatialReference \<Rightarrow> heap \<Rightarrow> real outcome" where
  "read_multiplier env sr h =
     (case length_multiplier_get env sr of
        Inl e \<Rightarrow> (Inl e, h)
      | Inr None \<Rightarrow> (Inl (TypeError ''unsupported operand type(s): NoneType''), h)
      | Inr (Some lm) \<Rightarrow> (Inr lm, h))"

definition read_xll :: "environ \<Rightarrow> SpatialReference \<Rightarrow> heap \<Rightarrow> real outcome" where
  "read_xll env sr h = (xll_get env sr, h)"

definition read_yll :: "environ \<Rightarrow> SpatialReference \<Rightarrow> heap \<Rightarrow> real outcome" where
  "read_yll env sr h = (yll_get env sr, h)"

text \<open>
  The head of \<^verbatim>\<open>transform\<close>: a list \<^verbatim>\<open>x\<close> turns both arguments into new arrays; then,
  unless \<^verbatim>\<open>x\<close> is a scalar, both are copied.
\<close>

definition prepare :: "pyarg \<Rightarrow> pyarg \<Rightarrow> heap \<Rightarrow> (pyarg \<times> pyarg) outcome" where
  "prepare x y h =
     and_then
       (case x of
          PyList a \<Rightarrow> and_then (np_array x h) (\<lambda>x1 h1. and_then (np_array y h1) (\<lambda>y1 h2. (Inr (x1, y1), h2)))
        | _ \<Rightarrow> (Inr (x, y), h))
       (\<lambda>(x1, y1) h1.
          if \<not> is_scalar x1
          then and_then (py_copy x1 h1) (\<lambda>x2 h2. and_then (py_copy y1 h2) (\<lambda>y2 h3. (Inr (x2, y2), h3)))
          else (Inr (x1, y1), h1))"

definition transform_forward :: "environ \<Rightarrow> SpatialReference \<Rightarrow> pyarg \<Rightarrow> pyarg \<Rightarrow> heap \<Rightarrow> (pyarg \<times> pyarg) outcome" where
  "transform_forward env sr x y h =
     and_then (read_multiplier env sr h) (\<lambda>lm h.
     and_then (in_place (\<lambda>r. r * lm) x h) (\<lambda>x h.
     and_then (in_place (\<lambda>r. r * lm) y h) (\<lambda>y h.
     and_then (read_xll env sr h) (\<lambda>xo h.
     and_then (in_place (\<lambda>r. r + xo) x h) (\<lambda>x h.
     and_then (read_yll env sr h) (\<lambda>yo h.
     and_then (in_place (\<lambda>r. r + yo) y h) (\<lambda>y h.
     rotate_args x y (rotation sr) xo yo h)))))))"

definition transform_inverse :: "environ \<Rightarrow> SpatialReference \<Rightarrow> pyarg \<Rightarrow> pyarg \<Rightarrow> heap \<Rightarrow> (pyarg \<times> pyarg) outcome" where
  "transform_inverse env sr x y h =
     and_then (read_xll env sr h) (\<lambda>xo h.
     and_then (read_yll env sr h) (\<lambda>yo h.
     and_then (rotate_args x y (- rotation sr) xo yo h) (\<lambda>(x, y) h.
     and_then (in_place (\<lambda>r. r - xo) x h) (\<lambda>x h.
     and_then (in_place (\<lambda>r. r - yo) y h) (\<lambda>y h.
     and_then (read_multiplier env sr h) (\<lambda>lm h.
     and_then (in_place_div lm x h) (\<lambda>x h.
     and_then (in_place_div lm y h) (\<lambda>y h.
     (Inr (x, y), h)))))))))"

definition transform_args ::
  "environ \<Rightarrow> SpatialReference \<Rightarrow> pyarg \<Rightarrow> pyarg \<Rightarrow> bool \<Rightarrow> heap \<Rightarrow> (pyarg \<times> pyarg) outcome" where
  "transform_args env sr x y inverse_flag h =
     and_then (prepare x y h) (\<lambda>(x1, y1) h1.
       if \<not> inverse_flag then transform_forward env sr x1 y1 h1
       else transform_inverse env sr x1 y1 h1)"

text \<open>
  The caller's heap is kept when it is the front of the heap now; an argument is fresh when
  it refers to nothing in the caller's heap.
\<close>

definition kept :: "heap \<Rightarrow> heap \<Rightarrow> bool" where
  "kept h0 h = (take (length h0) h = h0)"

definition fresh :: "heap \<Rightarrow> pyarg \<Rightarrow> bool" where
  "fresh h0 v = (case v of Scalar r \<Rightarrow> True | PyList a \<Rightarrow> length h0 \<le> a | NdArray a \<Rightarrow> length h0 \<le> a)"

definition post :: "heap \<Rightarrow> ('a \<Rightarrow> bool) \<Rightarrow> 'a outcome \<Rightarrow> bool" where
  "post h0 Q m = (kept h0 (snd m) \<and> (case fst m of Inl e \<Rightarrow> True | Inr v \<Rightarrow> Q v))"

section \<open>Concrete inputs\<close>

text \<open>
  An environment with no network, no \<^verbatim>\<open>pyproj\<close> and no projection file; the grid of two
  rows and two columns of unit cells, row 0 at the north edge; the spatial reference that
  \<^verbatim>\<open>SpatialReference(delr=[1,1], delc=[1,1], grid=..., xll=0, yll=0)\<close> builds on it;
  that reference after its caches have been read; and a reference turned by 30 degrees
  about the corner (10, 20) with a multiplier of 2.
\<close>

definition env0 :: environ where
  "env0 = \<lparr> get_url_text = (\<lambda>u. None), pyproj_srs = (\<lambda>p. None), int_of_str = (\<lambda>s. None),
            crs_new = (\<lambda>p e. case p of Some f \<Rightarrow> Inl (IOError ''No such file or directory'')
                                     | None \<Rightarrow> Inr None),
            new_grid = (\<lambda>dc dr. \<lparr> mg_nrow = 0, mg_ncol = 0, mg_edges = [], mg_centers = [] \<rparr>),
            python_runs = (\<lambda>ls. None) \<rparr>"

definition grid_2x2 :: grid_view where
  "grid_2x2 = \<lparr> mg_nrow = 2, mg_ncol = 2,
     mg_edges = [[(0, 2), (1, 2), (2, 2)], [(0, 1), (1, 1), (2, 1)], [(0, 0), (1, 0), (2, 0)]],
     mg_centers = [[(1/2, 3/2), (3/2, 3/2)], [(1/2, 1/2), (3/2, 1/2)]] \<rparr>"

definition sr_2x2 :: SpatialReference where
  "sr_2x2 = \<lparr> modelgrid = grid_2x2, origin_loc = ll,
      u_xul = Some 0, u_yul = Some 0, u_xll = Some 0, u_yll = Some 0,
      rotation = 0, u_length_multiplier = None, u_lenuni = 2, u_units = None,
      u_proj4_str = None, u_epsg = None, prj = None, u_wkt = None, crs = None,
      u_yedge = [2, 1, 0],
      u_xedges = None, u_yedges = None, u_xcenters = None, u_ycenters = None,
      u_vertices = None, u_gridlines = None \<rparr>"

definition sr_2x2_read :: SpatialReference where
  "sr_2x2_read = sr_2x2
     \<lparr> u_xedges := Some [[0, 1, 2], [0, 1, 2], [0, 1, 2]],
       u_yedges := Some [[2, 2, 2], [1, 1, 1], [0, 0, 0]],
       u_xcenters := Some [[1/2, 3/2], [1/2, 3/2]],
       u_ycenters := Some [[3/2, 3/2], [1/2, 1/2]],
       u_vertices := Some [[(0, 2), (0, 1), (1, 1), (1, 2), (0, 2)], [(1, 2), (1, 1), (2, 1), (2, 2), (1, 2)],
                          [(0, 1), (0, 0), (1, 0), (1, 1), (0, 1)], [(1, 1), (1, 0), (2, 0), (2, 1), (1, 1)]],
       u_gridlines := Some [((0, 0), (0, 2)), ((0, 0), (2, 0))] \<rparr>"

definition sr_turned :: SpatialReference where
  "sr_turned = sr_2x2 \<lparr> u_xll := Some 10, u_yll := Some 20, rotation := 30, u_length_multiplier := Some 2 \<rparr>"

text \<open>
  An installation whose \<^verbatim>\<open>sys.path\<close> has no \<^verbatim>\<open>site-packages\<close> directory (and no
  network): there \<^verbatim>\<open>epsgRef()\<close> raises \<^verbatim>\<open>IndexError\<close>, and with it \<^verbatim>\<open>getprj\<close> and the
  \<^verbatim>\<open>crs\<close> constructor when it is given a code. And the 2 by 2 reference for a model in
  feet placed in a system in feet, its caches read.
\<close>

definition env_no_site_packages :: environ where
  "env_no_site_packages =
     env0\<lparr> crs_new := (\<lambda>p e. case p of Some f \<Rightarrow> Inl (IOError ''No such file or directory'')
                                      | None \<Rightarrow> Inl (IndexError ''list index out of range'')) \<rparr>"

definition sr_feet_read :: SpatialReference where
  "sr_feet_read = sr_2x2_read\<lparr> u_lenuni := 1, u_units := Some ''feet'' \<rparr>"

text \<open>
  An environment whose every URL answers with one text, and one whose every URL answers
  with a text that has a quote in it (which Python cannot read back: \<open>python_runs\<close> is
  \<open>None\<close>). A process that has imported nothing yet, with a cache file of no entry and with
  one of an entry for the code 4326; and the world the first call of \<^verbatim>\<open>getprj(4326)\<close>
  leaves behind.
\<close>

definition env_online :: environ where
  "env_online = env0\<lparr> get_url_text := (\<lambda>u. Some ''GEOGCS[WGS 84]'') \<rparr>"

definition wkt_with_quote :: string where
  "wkt_with_quote = ''DATUM[D'' @ [CHR 0x27] @ ''Orsay]''"

definition env_online_quote :: environ where
  "env_online_quote = env0\<lparr> get_url_text := (\<lambda>u. Some wkt_with_quote) \<rparr>"

definition world_empty_cache :: world where
  "world_empty_cache = \<lparr> site_packages = Some ''/usr/lib/python3/site-packages'',
                         epsgref = Some [PrjInit], loaded = None, requested = [] \<rparr>"

definition world_one_entry :: world where
  "world_one_entry = \<lparr> site_packages = Some ''/usr/lib/python3/site-packages'',
                        epsgref = Some [PrjInit, PrjEntry 4326 ''GEOGCS[cached]''],
                        loaded = None, requested = [] \<rparr>"

definition world_after_first :: world where
  "world_after_first = \<lparr> site_packages = Some ''/usr/lib/python3/site-packages'',
                          epsgref = Some [PrjInit, PrjEntry 4326 ''GEOGCS[WGS 84]''],
                          loaded = Some Map.empty,
                          requested = [ref_url ''epsg'' (Some 4326) ''esriwkt''] \<rparr>"

section \<open>Properties of the model grids\<close>

text \<open>
  C3. The claim: a grid constructed from \<^verbatim>\<open>delc, delr, top, botm, idomain\<close> has
  \<^verbatim>\<open>nlay == len(botm)\<close>, \<^verbatim>\<open>nrow == len(delc)\<close> and \<^verbatim>\<open>ncol == len(delr)\<close>. The
  constructor takes the row count from \<^verbatim>\<open>delr\<close> and the column count from \<^verbatim>\<open>delc\<close>:
  with three row heights in \<^verbatim>\<open>delc\<close> and two column widths in \<^verbatim>\<open>delr\<close> the grid it
  builds has two rows and three columns.
\<close>

theorem StructuredModelGrid_init_swaps_rows_and_columns:
  "nrow (StructuredModelGrid_init [1, 1, 1] [1, 1] [] [[]] []) = 2
   \<and> ncol (StructuredModelGrid_init [1, 1, 1] [1, 1] [] [[]] []) = 3
   \<and> nlay (StructuredModelGrid_init [1, 1, 1] [1, 1] [] [[]] []) = 1
   \<and> nrow (StructuredModelGrid_init [1, 1, 1] [1, 1] [] [[]] []) \<noteq> int (length [1, 1, 1 :: real])
   \<and> ncol (StructuredModelGrid_init [1, 1, 1] [1, 1] [] [[]] []) \<noteq> int (length [1, 1 :: real])"
  by (simp add: StructuredModelGrid_init_def)

lemma StructuredModelGrid_init_dims:
  "nlay (StructuredModelGrid_init dc dr t b i) = int (length b)
   \<and> nrow (StructuredModelGrid_init dc dr t b i) = int (length dr)
   \<and> ncol (StructuredModelGrid_init dc dr t b i) = int (length dc)"
  by (simp add: StructuredModelGrid_init_def)

text \<open>
  C7. The claim: on an unlayered vertex grid \<^verbatim>\<open>num_cells_per_layer\<close> fails with the
  model-grid exception, whose message names the model. The method reaches for its grid
  type with \<^verbatim>\<open>self.grid_type()\<close>, which raises \<^verbatim>\<open>TypeError\<close> before the branch that
  builds the \<^verbatim>\<open>MFGridException\<close> is looked at.
\<close>

theorem VertexModelGrid_num_cells_per_layer_unlayered_TypeError:
  "vg_grid_type (VertexModelGrid_init [] [] [] [(0, 0), (1, 0), (0, 1)] [[0, 1, 2, 0]] None None)
     = unlayered_vertex
   \<and> VertexModelGrid_num_cells_per_layer
       (VertexModelGrid_init [] [] [] [(0, 0), (1, 0), (0, 1)] [[0, 1, 2, 0]] None None) False
     = Inl (TypeError ''GridType object is not callable'')"
  by (simp add: VertexModelGrid_init_def VertexModelGrid_num_cells_per_layer_def grid_type_call_def)

text \<open>
  C4, as the code has it. On a structured grid \<^verbatim>\<open>num_cells(active_only=False)\<close> returns
  \<^verbatim>\<open>nlay*nrow*ncol\<close>; on an unlayered vertex grid it returns no count at all (the
  source leaves that branch unimplemented and every path through the method raises).
\<close>

theorem num_cells_structured_and_unlayered:
  "StructuredModelGrid_num_cells g False = Inr (nlay g * nrow g * ncol g)
   \<and> (vg_grid_type v = unlayered_vertex \<longrightarrow> isl (VertexModelGrid_num_cells v False))"
  by (simp add: StructuredModelGrid_num_cells_def VertexModelGrid_num_cells_def grid_type_call_def
      mult.commute mult.left_commute)

theorem num_cells_structured_and_unlayered_witness:
  "StructuredModelGrid_num_cells (StructuredModelGrid_init [1, 1, 1] [1, 1] [] [[]] []) False = Inr 6
   \<and> vg_grid_type (VertexModelGrid_init [] [] [] [(0, 0), (1, 0), (0, 1)] [[0, 1, 2, 0]] None None)
       = unlayered_vertex
   \<and> isl (VertexModelGrid_num_cells
       (VertexModelGrid_init [] [] [] [(0, 0), (1, 0), (0, 1)] [[0, 1, 2, 0]] None None) False)"
  using num_cells_structured_and_unlayered
    [of "StructuredModelGrid_init [1, 1, 1] [1, 1] [] [[]] []"
        "VertexModelGrid_init [] [] [] [(0, 0), (1, 0), (0, 1)] [[0, 1, 2, 0]] None None"]
  by (simp add: StructuredModelGrid_init_def VertexModelGrid_init_def)

text \<open>
  C4 as claimed fails on the unlayered vertex grid with one cell: the claimed result is the
  count of its \<^verbatim>\<open>cell2d\<close> entries, 1, and the method returns nothing.
\<close>

theorem num_cells_unlayered_counterexample:
  "VertexModelGrid_num_cells
     (VertexModelGrid_init [] [] [] [(0, 0), (1, 0), (0, 1)] [[0, 1, 2, 0]] None None) False
   \<noteq> Inr (Some (int (length (cell2d
       (VertexModelGrid_init [] [] [] [(0, 0), (1, 0), (0, 1)] [[0, 1, 2, 0]] None None)))))"
  by (simp add: VertexModelGrid_init_def VertexModelGrid_num_cells_def grid_type_call_def)

section \<open>Properties of the transform\<close>

lemma rotate_xy_back:
  "rotate_xy (fst (rotate_xy x y t xo yo)) (snd (rotate_xy x y t xo yo)) (- t) xo yo = (x, y)"
proof -
  define c where "c = cos (t * pi / 180)"
  define s where "s = sin (t * pi / 180)"
  have cs: "c * c + s * s = 1"
    unfolding c_def s_def using sin_cos_squared_add2[of "t * pi / 180"] by (simp add: power2_eq_square)
  have x: "xo + c * (c * (x - xo) - s * (y - yo)) + s * (s * (x - xo) + c * (y - yo)) = x"
  proof -
    have "xo + c * (c * (x - xo) - s * (y - yo)) + s * (s * (x - xo) + c * (y - yo))
          = xo + (c * c + s * s) * (x - xo)" by (simp add: algebra_simps)
    then show ?thesis by (simp add: cs)
  qed
  have y: "yo - s * (c * (x - xo) - s * (y - yo)) + c * (s * (x - xo) + c * (y - yo)) = y"
  proof -
    have "yo - s * (c * (x - xo) - s * (y - yo)) + c * (s * (x - xo) + c * (y - yo))
          = yo + (c * c + s * s) * (y - yo)" by (simp add: algebra_simps)
    then show ?thesis by (simp add: cs)
  qed
  show ?thesis
    using x y by (simp add: rotate_xy_def Let_def c_def s_def)
qed

lemma inverse_forward_point:
  assumes "lm \<noteq> 0"
  shows "inverse_point lm xo yo rot (forward_point lm xo yo rot (x, y)) = (x, y)"
proof -
  obtain a b where ab: "rotate_xy (x * lm + xo) (y * lm + yo) rot xo yo = (a, b)" by fastforce
  have "rotate_xy a b (- rot) xo yo = (x * lm + xo, y * lm + yo)"
    using rotate_xy_back[of "x * lm + xo" "y * lm + yo" rot xo yo] ab by simp
  then show ?thesis using assms ab
    by (simp add: inverse_point_def forward_point_def Let_def)
qed

lemma transform_reads_both:
  assumes "length_multiplier_get env sr = Inr (Some lm)"
      and "xll_get env sr = Inr xo" and "yll_get env sr = Inr yo"
  shows "transform_reads env sr b = Inr (lm, xo, yo)"
  using assms by (simp add: transform_reads_def)

text \<open>
  C1. Over the reals, whenever the object yields a positive multiplier and its lower-left
  corner, the forward transform of any point returns, and the inverse transform of what it
  returns is the point. No bound on the rotation is needed.
\<close>

theorem transform_round_trip:
  assumes "length_multiplier_get env sr = Inr (Some lm)" and "0 < lm"
      and "xll_get env sr = Inr xo" and "yll_get env sr = Inr yo"
  shows "\<exists>p. transform env sr x y False = Inr p
             \<and> transform env sr (fst p) (snd p) True = Inr (x, y)"
proof -
  let ?p = "forward_point lm xo yo (rotation sr) (x, y)"
  have fwd: "transform env sr x y False = Inr ?p"
    using assms by (simp add: transform_def transform_reads_both)
  have "lm \<noteq> 0" using assms(2) by simp
  then have "inverse_point lm xo yo (rotation sr) ?p = (x, y)"
    by (rule inverse_forward_point)
  then have "transform env sr (fst ?p) (snd ?p) True = Inr (x, y)"
    using assms \<open>lm \<noteq> 0\<close> by (simp add: transform_def transform_reads_both)
  with fwd show ?thesis by blast
qed

theorem transform_round_trip_witness:
  "length_multiplier_get env0 sr_turned = Inr (Some 2) \<and> 0 \<le> rotation sr_turned \<and> rotation sr_turned < 360
   \<and> (\<exists>p. transform env0 sr_turned 3 (-7) False = Inr p
          \<and> transform env0 sr_turned (fst p) (snd p) True = Inr (3, -7))"
proof -
  have lm: "length_multiplier_get env0 sr_turned = Inr (Some 2)"
    by (simp add: length_multiplier_get_def sr_turned_def)
  have xo: "xll_get env0 sr_turned = Inr 10"
    by (simp add: xll_get_def sr_turned_def sr_2x2_def)
  have yo: "yll_get env0 sr_turned = Inr 20"
    by (simp add: yll_get_def sr_turned_def sr_2x2_def)
  have rot: "rotation sr_turned = 30"
    by (simp add: sr_turned_def)
  show ?thesis
    using transform_round_trip[OF lm _ xo yo, of 3 "-7"] lm rot by simp
qed

text \<open>The scenario: the constructor's result, and what the transform reads of it.\<close>

lemma init_2x2:
  "SpatialReference_init env [1, 1] [1, 1] (Some grid_2x2) 2 None None (Some 0) (Some 0) 0
      None None None None None = Inr sr_2x2"
  by (simp add: SpatialReference_init_def crs_init_def set_spatialreference_def reset_caches_def sr_2x2_def)

lemma lm_2x2: "length_multiplier_get env sr_2x2 = Inr (Some 1)"
  by (simp add: length_multiplier_get_def sr_2x2_def model_length_units_def lenuni_text_def
      units_get_def parse_units_from_proj4_def proj4_str_get_def supported_units_def)

lemma reads_2x2: "transform_reads env sr_2x2 False = Inr (1, 0, 0)"
  by (simp add: transform_reads_def lm_2x2) (simp add: xll_get_def yll_get_def sr_2x2_def)

lemma forward_2x2: "transform env sr_2x2 x y False = Inr (x, y)"
  by (simp add: transform_def reads_2x2 forward_point_def rotate_xy_def) (simp add: sr_2x2_def)

text \<open>
  C6, as the code has it: on the grid of the scenario the forward transform of the local point
  (0.5, 0.5) is (0.5, 0.5). With no rotation and a multiplier of 1 the transform adds the
  lower-left corner, here the origin, and local coordinates count from that corner.
\<close>

theorem scenario_2x2_forward:
  "SpatialReference_init env [1, 1] [1, 1] (Some grid_2x2) 2 None None (Some 0) (Some 0) 0
      None None None None None = Inr sr_2x2
   \<and> transform env sr_2x2 (1/2) (1/2) False = Inr (1/2, 1/2)"
  by (simp add: init_2x2 forward_2x2)

text \<open>
  C6 as claimed, (0.5, 1.5), is not what the transform returns: (0.5, 1.5) is the local
  position of the centre of cell (0, 0), which the transform is not given.
\<close>

theorem scenario_2x2_counterexample:
  "SpatialReference_init env0 [1, 1] [1, 1] (Some grid_2x2) 2 None None (Some 0) (Some 0) 0
      None None None None None = Inr sr_2x2
   \<and> transform env0 sr_2x2 (1/2) (1/2) False \<noteq> Inr (1/2, 3/2)"
  by (simp add: init_2x2 forward_2x2)

section \<open>Properties of construction and mutation\<close>

text \<open>
  C5. \<^verbatim>\<open>set_spatialreference\<close> raises \<^verbatim>\<open>ValueError\<close> exactly when both corners are
  given on one axis; the message names \<^verbatim>\<open>xul and xll\<close> when the x axis conflicts and
  \<^verbatim>\<open>yul and yll\<close> when only the y axis does; in every other case it returns.
\<close>

theorem set_spatialreference_conflict:
  "(pxul \<noteq> None \<and> pxll \<noteq> None \<longrightarrow>
      set_spatialreference sr dc pxul pyul pxll pyll rot = Inl (ValueError both_x_msg))
   \<and> (\<not> (pxul \<noteq> None \<and> pxll \<noteq> None) \<and> pyul \<noteq> None \<and> pyll \<noteq> None \<longrightarrow>
      set_spatialreference sr dc pxul pyul pxll pyll rot = Inl (ValueError both_y_msg))
   \<and> (\<not> (pxul \<noteq> None \<and> pxll \<noteq> None) \<and> \<not> (pyul \<noteq> None \<and> pyll \<noteq> None) \<longrightarrow>
      (\<exists>sr'. set_spatialreference sr dc pxul pyul pxll pyll rot = Inr sr'))
   \<and> py_in ''xul and xll'' both_x_msg \<and> \<not> py_in ''yul and yll'' both_x_msg
   \<and> py_in ''yul and yll'' both_y_msg \<and> \<not> py_in ''xul and xll'' both_y_msg"
  by (simp add: set_spatialreference_def Let_def both_x_msg_def both_y_msg_def)

text \<open>Both conflicts, and the three ways of giving one corner per axis.\<close>

theorem set_spatialreference_conflict_witness:
  "set_spatialreference sr_2x2 [1, 1] (Some 0) None (Some 0) None 0 = Inl (ValueError both_x_msg)
   \<and> set_spatialreference sr_2x2 [1, 1] None (Some 2) None (Some 0) 0 = Inl (ValueError both_y_msg)
   \<and> (\<exists>sr'. set_spatialreference sr_2x2 [1, 1] (Some 0) (Some 2) None None 0 = Inr sr')
   \<and> (\<exists>sr'. set_spatialreference sr_2x2 [1, 1] None None (Some 0) (Some 0) 0 = Inr sr')
   \<and> (\<exists>sr'. set_spatialreference sr_2x2 [1, 1] (Some 0) None None (Some 0) 0 = Inr sr')"
  using set_spatialreference_conflict[where pxul = "Some 0" and pxll = "Some 0" and pyul = None
          and pyll = None and sr = sr_2x2 and dc = "[1, 1]" and rot = 0]
        set_spatialreference_conflict[where pxul = None and pxll = None and pyul = "Some 2"
          and pyll = "Some 0" and sr = sr_2x2 and dc = "[1, 1]" and rot = 0]
        set_spatialreference_conflict[where pxul = "Some 0" and pxll = None and pyul = "Some 2"
          and pyll = None and sr = sr_2x2 and dc = "[1, 1]" and rot = 0]
        set_spatialreference_conflict[where pxul = None and pxll = "Some 0" and pyul = None
          and pyll = "Some 0" and sr = sr_2x2 and dc = "[1, 1]" and rot = 0]
        set_spatialreference_conflict[where pxul = "Some 0" and pxll = None and pyul = None
          and pyll = "Some 0" and sr = sr_2x2 and dc = "[1, 1]" and rot = 0]
  by simp

lemma caches_cleared_reset: "caches_cleared (reset_caches sr)"
  by (simp add: caches_cleared_def reset_caches_def)

text \<open>
  What \<^verbatim>\<open>__setattr__\<close> does do. An assignment to one of the seven numeric attributes or
  to \<^verbatim>\<open>proj4_str\<close> always completes and leaves all six caches at \<^verbatim>\<open>None\<close>; so does one
  to \<^verbatim>\<open>units\<close> with a supported unit, and one to \<^verbatim>\<open>epsg\<close> or \<^verbatim>\<open>prj\<close> whose \<^verbatim>\<open>crs\<close>
  object can be built. An unsupported unit fails the \<^verbatim>\<open>assert\<close> before anything is
  written. An assignment to another name resets nothing.
\<close>

lemma setattr_completes_and_resets:
  assumes "key a \<in> set [''xul'', ''yul'', ''xll'', ''yll'', ''rotation'', ''lenuni'', ''length_multiplier'', ''proj4_str'']"
  shows "fst (setattr env sr a) = None \<and> caches_cleared (snd (setattr env sr a))"
  using assms by (cases a) (simp_all add: Let_def caches_cleared_reset)

lemma setattr_units_supported:
  "py_lower v \<in> set supported_units \<Longrightarrow>
     setattr env sr (Set_units v) = (None, reset_caches (sr\<lparr> u_units := Some (py_lower v) \<rparr>))"
  by (simp add: Let_def)

lemma setattr_units_rejected:
  "py_lower v \<notin> set supported_units \<Longrightarrow> setattr env sr (Set_units v) = (Some AssertionError, sr)"
  by (simp add: Let_def)

lemma setattr_epsg_completes:
  "crs_init env None v = Inr c \<Longrightarrow>
     fst (setattr env sr (Set_epsg v)) = None \<and> caches_cleared (snd (setattr env sr (Set_epsg v)))"
  by (simp add: Let_def caches_cleared_reset)

lemma setattr_prj_completes:
  "crs_init env v (u_epsg sr) = Inr c \<Longrightarrow>
     fst (setattr env sr (Set_prj v)) = None \<and> caches_cleared (snd (setattr env sr (Set_prj v)))"
  by (simp add: Let_def caches_cleared_reset)

lemma setattr_completed_resets:
  assumes "key a \<in> set reset_keys" and "fst (setattr env sr a) = None"
  shows "caches_cleared (snd (setattr env sr a))"
proof (cases a)
  case (Set_units v)
  then show ?thesis using assms(2) by (auto simp: Let_def caches_cleared_reset split: if_splits)
next
  case (Set_proj4_str v)
  then show ?thesis by (simp add: Let_def caches_cleared_reset)
next
  case (Set_epsg v)
  then show ?thesis using assms(2) by (auto simp: Let_def caches_cleared_reset split: sum.splits)
next
  case (Set_prj v)
  then show ?thesis using assms(2) by (auto simp: Let_def caches_cleared_reset split: sum.splits)
next
  case (Set_origin_loc v)
  then show ?thesis using assms(1) by (simp add: reset_keys_def)
next
  case (Set_u_yedge v)
  then show ?thesis using assms(1) by (simp add: reset_keys_def)
qed (simp_all add: caches_cleared_reset)

lemma setattr_other_keeps_caches:
  "u_vertices (snd (setattr env sr (Set_origin_loc v))) = u_vertices sr
   \<and> u_xedges (snd (setattr env sr (Set_origin_loc v))) = u_xedges sr"
  by simp

text \<open>
  After a completed assignment to one of the eleven attributes a read of \<^verbatim>\<open>xedges\<close>
  finds no cache and transforms the grid's edges with the parameters as they now are.
\<close>

lemma read_after_assignment:
  assumes "key a \<in> set reset_keys" and "fst (setattr env sr a) = None"
  shows "xedges_get env (snd (setattr env sr a)) =
           (case xyedges env (snd (setattr env sr a)) of
              Inl e \<Rightarrow> Inl e
            | Inr (xe, ye) \<Rightarrow>
                Inr (xe, (snd (setattr env sr a))\<lparr> u_xedges := Some xe, u_yedges := Some ye \<rparr>))"
proof -
  have "u_xedges (snd (setattr env sr a)) = None"
    using setattr_completed_resets[OF assms] by (simp add: caches_cleared_def)
  then show ?thesis by (simp add: xedges_get_def)
qed

lemma lm_feet_read: "length_multiplier_get env sr_feet_read = Inr (Some 1)"
  by (simp add: length_multiplier_get_def sr_feet_read_def sr_2x2_read_def sr_2x2_def
      model_length_units_def lenuni_text_def units_get_def supported_units_def py_lower_def lower_char_def)

lemma getproj4_offline: "getproj4 env_no_site_packages (Some 4326) = None"
  by (simp add: getproj4_def get_spatialreference_def env_no_site_packages_def env0_def)

lemma setattr_epsg_no_site_packages:
  "setattr env_no_site_packages sr_feet_read (Set_epsg (Some 4326)) =
     (Some (IndexError ''list index out of range''),
      sr_feet_read\<lparr> u_epsg := Some 4326, u_units := None, u_proj4_str := None \<rparr>)"
  by (simp add: Let_def getproj4_offline crs_init_def) (simp add: env_no_site_packages_def)

lemma lm_after_failed_epsg:
  "length_multiplier_get env_no_site_packages
     (sr_feet_read\<lparr> u_epsg := Some 4326, u_units := None, u_proj4_str := None \<rparr>) = Inr (Some 0.3048)"
  by (simp add: length_multiplier_get_def sr_feet_read_def sr_2x2_read_def sr_2x2_def
      model_length_units_def lenuni_text_def units_get_def supported_units_def
      parse_units_from_proj4_def proj4_str_get_def str_of_int_def env_no_site_packages_def env0_def
      py_upper_def upper_char_def)

text \<open>
  The caches of the reference in feet are what its properties compute and keep: with the
  caches empty, the edges transform to the arrays it holds.
\<close>

lemma xyedges_feet_read:
  "xyedges env_no_site_packages (reset_caches sr_feet_read)
   = Inr ([[0, 1, 2], [0, 1, 2], [0, 1, 2]], [[2, 2, 2], [1, 1, 1], [0, 0, 0]])
   \<and> u_xedges sr_feet_read = Some [[0, 1, 2], [0, 1, 2], [0, 1, 2]]
   \<and> u_yedges sr_feet_read = Some [[2, 2, 2], [1, 1, 1], [0, 0, 0]]"
  by (simp add: xyedges_def transform_points_def transform_reads_def length_multiplier_get_def
        model_length_units_def lenuni_text_def units_get_def supported_units_def py_lower_def
        lower_char_def xll_get_def yll_get_def reset_caches_def sr_feet_read_def sr_2x2_read_def
        sr_2x2_def grid_2x2_def forward_point_def rotate_xy_def)

lemma xyedges_after_failed_epsg:
  "xyedges env_no_site_packages
     (sr_feet_read\<lparr> u_epsg := Some 4326, u_units := None, u_proj4_str := None \<rparr>)
   = Inr ([[0, 0.3048, 0.6096], [0, 0.3048, 0.6096], [0, 0.3048, 0.6096]],
          [[0.6096, 0.6096, 0.6096], [0.3048, 0.3048, 0.3048], [0, 0, 0]])"
  by (simp add: xyedges_def transform_points_def transform_reads_def lm_after_failed_epsg)
     (simp add: xll_get_def yll_get_def sr_feet_read_def sr_2x2_read_def sr_2x2_def grid_2x2_def
        forward_point_def rotate_xy_def)

text \<open>
  C2. The claim: an assignment to one of the eleven attributes leaves no cached family
  behind. The \<^verbatim>\<open>epsg\<close> branch writes \<^verbatim>\<open>_epsg\<close>, \<^verbatim>\<open>_units\<close> and \<^verbatim>\<open>_proj4_str\<close> first and
  builds the \<^verbatim>\<open>crs\<close> object next; when that raises, the reset at the end of the method is
  never reached. On the reference in feet with its caches read, where there is no
  \<^verbatim>\<open>site-packages\<close> directory, \<^verbatim>\<open>sr.epsg = 4326\<close> raises \<^verbatim>\<open>IndexError\<close>. The object
  has the new code and has lost its units, so its length multiplier has gone from 1 to
  0.3048; every cache still holds what it held, and \<^verbatim>\<open>xedges\<close> still reads 0, 1, 2 along
  a row where the edges transformed with the parameters as they now are lie at 0, 0.3048,
  0.6096.
\<close>

theorem setattr_epsg_raises_before_reset:
  "\<not> caches_cleared sr_feet_read
   \<and> length_multiplier_get env_no_site_packages sr_feet_read = Inr (Some 1)
   \<and> setattr env_no_site_packages sr_feet_read (Set_epsg (Some 4326))
        = (Some (IndexError ''list index out of range''),
           sr_feet_read\<lparr> u_epsg := Some 4326, u_units := None, u_proj4_str := None \<rparr>)
   \<and> \<not> caches_cleared (snd (setattr env_no_site_packages sr_feet_read (Set_epsg (Some 4326))))
   \<and> length_multiplier_get env_no_site_packages
        (snd (setattr env_no_site_packages sr_feet_read (Set_epsg (Some 4326)))) = Inr (Some 0.3048)
   \<and> xedges_get env_no_site_packages
        (snd (setattr env_no_site_packages sr_feet_read (Set_epsg (Some 4326))))
        = Inr ([[0, 1, 2], [0, 1, 2], [0, 1, 2]],
               snd (setattr env_no_site_packages sr_feet_read (Set_epsg (Some 4326))))
   \<and> xyedges env_no_site_packages
        (snd (setattr env_no_site_packages sr_feet_read (Set_epsg (Some 4326))))
        = Inr ([[0, 0.3048, 0.6096], [0, 0.3048, 0.6096], [0, 0.3048, 0.6096]],
               [[0.6096, 0.6096, 0.6096], [0.3048, 0.3048, 0.3048], [0, 0, 0]])"
  unfolding setattr_epsg_no_site_packages fst_conv snd_conv lm_feet_read lm_after_failed_epsg
    xyedges_after_failed_epsg
  by (simp add: caches_cleared_def xedges_get_def sr_feet_read_def sr_2x2_read_def)

section \<open>Properties of the vertices\<close>

lemma collect_length: "collect rs = Inr vs \<Longrightarrow> length vs = length rs"
proof (induction rs arbitrary: vs)
  case Nil
  then show ?case by simp
next
  case (Cons r rs)
  then show ?case by (cases r) (auto split: sum.splits)
qed

lemma collect_map_sound:
  "collect (map f xs) = Inr vs \<Longrightarrow> v \<in> set vs \<Longrightarrow> \<exists>x \<in> set xs. f x = Inr v"
proof (induction xs arbitrary: vs)
  case Nil
  then show ?case by simp
next
  case (Cons x xs)
  then show ?case by (cases "f x") (auto split: sum.splits)
qed

lemma collect_map_total:
  "(\<And>x. x \<in> set xs \<Longrightarrow> \<exists>v. f x = Inr v) \<Longrightarrow> \<exists>vs. collect (map f xs) = Inr vs"
proof (induction xs)
  case Nil
  then show ?case by simp
next
  case (Cons x xs)
  then obtain v where "f x = Inr v" by fastforce
  moreover obtain vs where "collect (map f xs) = Inr vs" using Cons by fastforce
  ultimately show ?case by simp
qed

lemma collect_Cons_Inr:
  "collect (r # rs) = Inr vs \<longleftrightarrow> (\<exists>v ws. r = Inr v \<and> collect rs = Inr ws \<and> vs = v # ws)"
  by (cases r) (auto split: sum.splits)

lemma cell_ring_closed: "cell_ring xg yg ij = Inr ring \<Longrightarrow> closed_ring ring"
  by (cases ij) (auto simp: cell_ring_def closed_ring_def collect_Cons_Inr)

lemma length_meshgrid_ravel: "length (meshgrid_ravel nc nr) = nat nr * nat nc"
  by (simp add: meshgrid_ravel_def py_range_def length_concat comp_def sum_list_triv)

lemma meshgrid_ravel_range:
  "(i, j) \<in> set (meshgrid_ravel nc nr) \<Longrightarrow> 0 \<le> i \<and> i < nr \<and> 0 \<le> j \<and> j < nc"
  by (auto simp: meshgrid_ravel_def py_range_def)

lemma get_vertices_rings:
  assumes "get_vertices env sr ijs = Inr (rings, sr')"
  shows "length rings = length ijs \<and> (\<forall>ring \<in> set rings. closed_ring ring)"
proof -
  from assms obtain xg yg where c: "collect (map (cell_ring xg yg) ijs) = Inr rings"
    by (auto simp: get_vertices_def split: sum.splits prod.splits)
  have "length rings = length ijs" using collect_length[OF c] by simp
  moreover have "closed_ring ring" if "ring \<in> set rings" for ring
    using collect_map_sound[OF c that] cell_ring_closed by blast
  ultimately show ?thesis by blast
qed

lemma wrap_index_ok: "0 \<le> i \<Longrightarrow> i < int n \<Longrightarrow> wrap_index n i = Inr (nat i)"
  by (simp add: wrap_index_def)

lemma index2_ok:
  "0 \<le> i \<Longrightarrow> i < int (length a) \<Longrightarrow> 0 \<le> j \<Longrightarrow> j < int (length (a ! nat i))
   \<Longrightarrow> index2 a i j = Inr (a ! nat i ! nat j)"
  by (simp add: index2_def wrap_index_ok)

lemma shaped_map: "shaped nr nc a \<Longrightarrow> shaped nr nc (map (map f) a)"
  by (simp add: shaped_def list_all_iff)

lemma shaped_row: "shaped nr nc a \<Longrightarrow> 0 \<le> i \<Longrightarrow> i \<le> nr \<Longrightarrow> int (length (a ! nat i)) = nc + 1"
proof -
  assume s: "shaped nr nc a" and i: "0 \<le> i" "i \<le> nr"
  then have "nat i < length a" by (simp add: shaped_def) linarith
  then have "a ! nat i \<in> set a" by simp
  then show ?thesis using s by (simp add: shaped_def list_all_iff)
qed

lemma point_at_ok:
  assumes "shaped nr nc xg" "shaped nr nc yg" "0 \<le> i" "i \<le> nr" "0 \<le> j" "j \<le> nc"
  shows "\<exists>p. point_at xg yg i j = Inr p"
proof -
  have "index2 xg i j = Inr (xg ! nat i ! nat j)"
    using assms shaped_row[OF assms(1) assms(3) assms(4)] by (intro index2_ok) (simp_all add: shaped_def)
  moreover have "index2 yg i j = Inr (yg ! nat i ! nat j)"
    using assms shaped_row[OF assms(2) assms(3) assms(4)] by (intro index2_ok) (simp_all add: shaped_def)
  ultimately show ?thesis by (simp add: point_at_def)
qed

lemma cell_ring_ok:
  assumes "shaped nr nc xg" "shaped nr nc yg" "0 \<le> i" "i < nr" "0 \<le> j" "j < nc"
  shows "\<exists>ring. cell_ring xg yg (i, j) = Inr ring"
proof -
  obtain p1 where p1: "point_at xg yg i j = Inr p1"
    using point_at_ok[OF assms(1,2), of i j] assms by auto
  obtain p2 where p2: "point_at xg yg (i + 1) j = Inr p2"
    using point_at_ok[OF assms(1,2), of "i + 1" j] assms by auto
  obtain p3 where p3: "point_at xg yg (i + 1) (j + 1) = Inr p3"
    using point_at_ok[OF assms(1,2), of "i + 1" "j + 1"] assms by auto
  obtain p4 where p4: "point_at xg yg i (j + 1) = Inr p4"
    using point_at_ok[OF assms(1,2), of i "j + 1"] assms by auto
  show ?thesis by (simp add: cell_ring_def p1 p2 p3 p4)
qed

lemma edges_shaped_iff: "edges_shaped g = shaped (mg_nrow g) (mg_ncol g) (mg_edges g)"
  by (simp add: edges_shaped_def shaped_def)

lemma get_vertices_total:
  assumes none: "u_xedges sr = None" "u_yedges sr = None"
      and shp: "edges_shaped (modelgrid sr)"
      and reads: "transform_reads env sr False = Inr r"
  shows "\<exists>rings sr'. get_vertices env sr
            (meshgrid_ravel (mg_ncol (modelgrid sr)) (mg_nrow (modelgrid sr))) = Inr (rings, sr')"
proof -
  let ?g = "modelgrid sr"
  obtain lm xo yo where r: "r = (lm, xo, yo)" by (cases r) auto
  define pts where "pts = map (map (forward_point lm xo yo (rotation sr))) (mg_edges ?g)"
  define xe where "xe = map (map fst) pts"
  define ye where "ye = map (map snd) pts"
  have xy: "xyedges env sr = Inr (xe, ye)"
    using reads r by (simp add: xyedges_def transform_points_def pts_def xe_def ye_def)
  have sx: "shaped (mg_nrow ?g) (mg_ncol ?g) xe" and sy: "shaped (mg_nrow ?g) (mg_ncol ?g) ye"
    using shp by (simp_all add: xe_def ye_def pts_def edges_shaped_iff shaped_map)
  let ?sr1 = "sr\<lparr> u_xedges := Some xe, u_yedges := Some ye \<rparr>"
  have x: "xedges_get env sr = Inr (xe, ?sr1)"
    using none xy by (simp add: xedges_get_def)
  have y: "yedges_get env ?sr1 = Inr (ye, ?sr1)"
    by (simp add: yedges_get_def)
  have "\<exists>ring. cell_ring xe ye ij = Inr ring"
    if "ij \<in> set (meshgrid_ravel (mg_ncol ?g) (mg_nrow ?g))" for ij
  proof -
    obtain i j where ij: "ij = (i, j)" by (cases ij) auto
    then have "0 \<le> i \<and> i < mg_nrow ?g \<and> 0 \<le> j \<and> j < mg_ncol ?g"
      using that meshgrid_ravel_range by blast
    then show ?thesis using cell_ring_ok[OF sx sy] ij by blast
  qed
  then obtain rings where
    "collect (map (cell_ring xe ye) (meshgrid_ravel (mg_ncol ?g) (mg_nrow ?g))) = Inr rings"
    using collect_map_total[of _ "cell_ring xe ye"] by blast
  then show ?thesis by (simp add: get_vertices_def x y)
qed

text \<open>
  C8. On an object whose vertex cache is empty, whatever the property \<^verbatim>\<open>vertices\<close> returns
  is one ring per cell, \<^verbatim>\<open>nrow * ncol\<close> rings in all, each of five points with the last
  equal to the first; and it does return when the edge caches are empty too, the grid's edge
  arrays have \<^verbatim>\<open>nrow + 1\<close> rows of \<^verbatim>\<open>ncol + 1\<close> points, and the transform can read
  its parameters.
\<close>

theorem vertices_rings:
  assumes "u_vertices sr = None"
  shows "(u_xedges sr = None \<and> u_yedges sr = None \<and> edges_shaped (modelgrid sr)
            \<and> \<not> isl (transform_reads env sr False)
          \<longrightarrow> (\<exists>rings sr'. vertices_get env sr = Inr (rings, sr')))
       \<and> (\<forall>rings sr'. vertices_get env sr = Inr (rings, sr') \<longrightarrow>
            length rings = nat (mg_nrow (modelgrid sr)) * nat (mg_ncol (modelgrid sr))
            \<and> (\<forall>ring \<in> set rings. length ring = 5 \<and> hd ring = last ring))"
proof (intro conjI impI allI)
  assume h: "u_xedges sr = None \<and> u_yedges sr = None \<and> edges_shaped (modelgrid sr)
            \<and> \<not> isl (transform_reads env sr False)"
  then obtain r where "transform_reads env sr False = Inr r"
    by (cases "transform_reads env sr False") auto
  then obtain rings sr1 where
    "get_vertices env sr (meshgrid_ravel (mg_ncol (modelgrid sr)) (mg_nrow (modelgrid sr))) = Inr (rings, sr1)"
    using get_vertices_total h by blast
  then show "\<exists>rings sr'. vertices_get env sr = Inr (rings, sr')"
    using assms by (simp add: vertices_get_def)
next
  fix rings sr'
  assume v: "vertices_get env sr = Inr (rings, sr')"
  then obtain sr1 where
    g: "get_vertices env sr (meshgrid_ravel (mg_ncol (modelgrid sr)) (mg_nrow (modelgrid sr))) = Inr (rings, sr1)"
    using assms by (auto simp: vertices_get_def split: sum.splits)
  show "length rings = nat (mg_nrow (modelgrid sr)) * nat (mg_ncol (modelgrid sr))"
    using get_vertices_rings[OF g] by (simp add: length_meshgrid_ravel)
  show "\<forall>ring \<in> set rings. length ring = 5 \<and> hd ring = last ring"
    using get_vertices_rings[OF g] by (simp add: closed_ring_def)
qed

lemma forward_point_id: "forward_point 1 0 0 0 p = p"
  by (simp add: forward_point_def rotate_xy_def)

lemma xyedges_2x2:
  "xyedges env sr_2x2 = Inr ([[0, 1, 2], [0, 1, 2], [0, 1, 2]], [[2, 2, 2], [1, 1, 1], [0, 0, 0]])"
  by (simp add: xyedges_def transform_points_def reads_2x2) (simp add: sr_2x2_def grid_2x2_def forward_point_id)

text \<open>The rings of the 2 by 2 grid, row by row, each from the upper-left corner of its cell.\<close>

lemma vertices_2x2:
  "vertices_get env sr_2x2 =
     Inr ([[(0, 2), (0, 1), (1, 1), (1, 2), (0, 2)], [(1, 2), (1, 1), (2, 1), (2, 2), (1, 2)],
           [(0, 1), (0, 0), (1, 0), (1, 1), (0, 1)], [(1, 1), (1, 0), (2, 0), (2, 1), (1, 1)]],
          sr_2x2\<lparr> u_xedges := Some [[0, 1, 2], [0, 1, 2], [0, 1, 2]],
                   u_yedges := Some [[2, 2, 2], [1, 1, 1], [0, 0, 0]],
                   u_vertices := Some [[(0, 2), (0, 1), (1, 1), (1, 2), (0, 2)], [(1, 2), (1, 1), (2, 1), (2, 2), (1, 2)],
                          [(0, 1), (0, 0), (1, 0), (1, 1), (0, 1)], [(1, 1), (1, 0), (2, 0), (2, 1), (1, 1)]] \<rparr>)"
proof -
  have n: "u_vertices sr_2x2 = None" "u_xedges sr_2x2 = None" "u_yedges sr_2x2 = None"
    by (simp_all add: sr_2x2_def)
  have d: "mg_nrow (modelgrid sr_2x2) = 2" "mg_ncol (modelgrid sr_2x2) = 2"
    by (simp_all add: sr_2x2_def grid_2x2_def)
  have mr: "meshgrid_ravel 2 2 = [(0, 0), (0, 1), (1, 0), (1, 1)]"
    by (simp add: meshgrid_ravel_def py_range_def upt_rec)
  let ?sr1 = "sr_2x2\<lparr> u_xedges := Some [[0, 1, 2], [0, 1, 2], [0, 1, 2]],
                      u_yedges := Some [[2, 2, 2], [1, 1, 1], [0, 0, 0]] \<rparr>"
  have x: "xedges_get env sr_2x2 = Inr ([[0, 1, 2], [0, 1, 2], [0, 1, 2]], ?sr1)"
    by (simp add: xedges_get_def xyedges_2x2 n)
  have y: "yedges_get env ?sr1 = Inr ([[2, 2, 2], [1, 1, 1], [0, 0, 0]], ?sr1)"
    by (simp add: yedges_get_def)
  have rings: "collect (map (cell_ring [[0, 1, 2], [0, 1, 2], [0, 1, 2]] [[2, 2, 2], [1, 1, 1], [0, 0, 0]])
                 [(0, 0), (0, 1), (1, 0), (1, 1)])
      = Inr [[(0, 2), (0, 1), (1, 1), (1, 2), (0, 2)], [(1, 2), (1, 1), (2, 1), (2, 2), (1, 2)],
             [(0, 1), (0, 0), (1, 0), (1, 1), (0, 1)], [(1, 1), (1, 0), (2, 0), (2, 1), (1, 1)]]"
    by (simp add: cell_ring_def point_at_def index2_def wrap_index_def)
  show ?thesis
    using rings by (simp add: vertices_get_def n d mr get_vertices_def x y)
qed

text \<open>The grid of two rows and two columns: four closed rings.\<close>

theorem vertices_rings_witness:
  "u_vertices sr_2x2 = None \<and> u_xedges sr_2x2 = None \<and> u_yedges sr_2x2 = None
   \<and> edges_shaped (modelgrid sr_2x2) \<and> \<not> isl (transform_reads env0 sr_2x2 False)
   \<and> (\<exists>rings sr'. vertices_get env0 sr_2x2 = Inr (rings, sr')
         \<and> length rings = 2 * 2 \<and> list_all closed_ring rings)"
proof -
  have n: "u_vertices sr_2x2 = None" "u_xedges sr_2x2 = None" "u_yedges sr_2x2 = None"
    by (simp_all add: sr_2x2_def)
  have s: "edges_shaped (modelgrid sr_2x2)"
    by (simp add: edges_shaped_def sr_2x2_def grid_2x2_def)
  have r: "\<not> isl (transform_reads env0 sr_2x2 False)"
    by (simp add: reads_2x2)
  have d: "mg_nrow (modelgrid sr_2x2) = 2" "mg_ncol (modelgrid sr_2x2) = 2"
    by (simp_all add: sr_2x2_def grid_2x2_def)
  from vertices_rings[OF n(1), of env0] n s r
  obtain rings sr' where v: "vertices_get env0 sr_2x2 = Inr (rings, sr')" by blast
  with vertices_rings[OF n(1), of env0] d
  have "length rings = 2 * 2 \<and> list_all closed_ring rings"
    by (simp add: list_all_iff closed_ring_def)
  with v n s r show ?thesis by blast
qed

section \<open>Properties of the EPSG resolver\<close>

lemma run_lines_append_entry:
  "run_lines d (ls @ [PrjEntry k v]) = (case run_lines d ls of None \<Rightarrow> None | Some m \<Rightarrow> Some (m(k \<mapsto> v)))"
proof (induction ls arbitrary: d)
  case Nil
  then show ?case by (cases d) simp_all
next
  case (Cons l ls)
  then show ?case by (cases l) (auto split: option.splits)
qed

lemma fetch_first_asked: "us \<noteq> [] \<Longrightarrow> snd (fetch_first env us) \<noteq> []"
  by (cases us) (auto split: option.splits prod.splits)

lemma get_spatialreference_asked: "snd (get_spatialreference env epsg fmt) \<noteq> []"
proof -
  have "snd (fetch_first env (map (\<lambda>cat. ref_url cat epsg fmt) [''epsg'', ''esri''])) \<noteq> []"
    by (rule fetch_first_asked) simp
  then show ?thesis
    by (auto simp: get_spatialreference_def split: prod.splits option.splits)
qed

lemma online_lookup: "get_spatialreference env_online (Some 4326) ''esriwkt''
    = (Some ''GEOGCS[WGS 84]'', [ref_url ''epsg'' (Some 4326) ''esriwkt''])"
  by (simp add: get_spatialreference_def env_online_def remove_newlines_def)

text \<open>
  Without a \<^verbatim>\<open>site-packages\<close> directory \<^verbatim>\<open>getprj\<close> raises before it looks anywhere.
\<close>

lemma getprj_no_site_packages:
  "site_packages w = None \<Longrightarrow> getprj env w epsg alr fmt = (Inl (IndexError ''list index out of range''), w)"
  by (simp add: getprj_def)

text \<open>
  In a process that has not imported the cache module yet, a code the file holds a text for
  gets that text, and no URL is requested.
\<close>

lemma getprj_first_import_hit:
  assumes "loaded w = None" and "file_holds env w epsg = Some t"
  shows "fst (getprj env w epsg alr fmt) = Inr (Some t)
         \<and> requested (snd (getprj env w epsg alr fmt)) = requested w"
  using assms
  by (auto simp: getprj_def file_holds_def import_prj_def add_def split: option.splits)

text \<open>
  Once the module is imported, the dictionary it holds decides, not the file: a code the
  dictionary has no text for is asked of the remote, whatever the file holds by then.
\<close>

lemma getprj_loaded_miss_asks:
  assumes "site_packages w = Some loc" and "loaded w = Some d" and "d epsg = None"
  shows "fst (getprj env w epsg alr fmt) = Inr (fst (get_spatialreference env (Some epsg) fmt))
         \<and> requested (snd (getprj env w epsg alr fmt))
             = requested w @ snd (get_spatialreference env (Some epsg) fmt)"
  using assms
  by (auto simp: getprj_def import_prj_def add_def split: option.splits prod.splits)

lemma getprj_loaded_hit:
  assumes "site_packages w = Some loc" and "loaded w = Some d" and "d epsg = Some t"
  shows "fst (getprj env w epsg alr fmt) = Inr (Some t)
         \<and> requested (snd (getprj env w epsg alr fmt)) = requested w"
  using assms
  by (auto simp: getprj_def import_prj_def add_def split: option.splits prod.splits)

text \<open>
  The write-back: a text the call returns is appended to the file when
  \<^verbatim>\<open>addlocalreference\<close> is true, and the file is left as it was when it is false. The
  dictionary of the module imported is never touched.
\<close>

lemma getprj_write_back:
  assumes "fst (getprj env w epsg True fmt) = Inr (Some t)"
  shows "\<exists>ls. epsgref (snd (getprj env w epsg True fmt)) = Some (ls @ [PrjEntry epsg t])"
  using assms
  by (auto simp: getprj_def import_prj_def add_def make_def split: option.splits prod.splits if_splits)

lemma getprj_no_write_back:
  assumes "epsgref w = Some ls"
  shows "epsgref (snd (getprj env w epsg False fmt)) = Some ls"
  using assms
  by (auto simp: getprj_def import_prj_def make_def split: option.splits prod.splits)

lemma getprj_keeps_loaded:
  assumes "loaded w = Some d"
  shows "loaded (snd (getprj env w epsg alr fmt)) = Some d"
  using assms
  by (auto simp: getprj_def import_prj_def add_def split: option.splits prod.splits)

text \<open>
  The text goes into the file between single quotes as it came. A remote text with a quote
  in it makes the file one Python cannot import: after the call the file holds no text for
  any code, the one just written included.
\<close>

lemma getprj_quote_breaks_cache:
  "fst (getprj env_online_quote world_one_entry 32 True ''esriwkt'')
     = Inr (Some wkt_with_quote)
   \<and> file_holds env_online_quote world_one_entry 4326 = Some ''GEOGCS[cached]''
   \<and> file_holds env_online_quote (snd (getprj env_online_quote world_one_entry 32 True ''esriwkt'')) 4326 = None
   \<and> file_holds env_online_quote (snd (getprj env_online_quote world_one_entry 32 True ''esriwkt'')) 32 = None"
  by (simp add: getprj_def import_prj_def add_def file_holds_def run_file_def plain_line_def plain_def
      world_one_entry_def get_spatialreference_def env_online_quote_def env0_def remove_newlines_def
      wkt_with_quote_def)

text \<open>
  C9. The claim: a code whose text is in the local cache gets the cached text and no remote
  lookup; the remote is asked only for a code the cache has no text for, and what it answers
  is written back into the cache. \<^verbatim>\<open>getprj\<close> reads the cache through
  \<^verbatim>\<open>from epsgref import prj\<close> and writes it through \<^verbatim>\<open>epsgRef.add\<close>, which appends to the
  file and leaves the imported module alone. Two calls of \<^verbatim>\<open>getprj(4326)\<close> in one process,
  starting from a cache file with no entry: the first imports the empty dictionary, asks the
  remote and appends the answer to the file. For the second the cache file holds the text
  for 4326, yet the import returns the dictionary of the first call, and the remote is asked
  again (and the line appended a second time).
\<close>

theorem getprj_same_process_asks_again:
  "getprj env_online world_empty_cache 4326 True ''esriwkt''
     = (Inr (Some ''GEOGCS[WGS 84]''), world_after_first)
   \<and> file_holds env_online world_after_first 4326 = Some ''GEOGCS[WGS 84]''
   \<and> fst (getprj env_online world_after_first 4326 True ''esriwkt'') = Inr (Some ''GEOGCS[WGS 84]'')
   \<and> requested (snd (getprj env_online world_after_first 4326 True ''esriwkt''))
       = [ref_url ''epsg'' (Some 4326) ''esriwkt'', ref_url ''epsg'' (Some 4326) ''esriwkt'']
   \<and> epsgref (snd (getprj env_online world_after_first 4326 True ''esriwkt''))
       = Some [PrjInit, PrjEntry 4326 ''GEOGCS[WGS 84]'', PrjEntry 4326 ''GEOGCS[WGS 84]'']"
  by (simp add: getprj_def import_prj_def add_def file_holds_def run_file_def plain_line_def plain_def
      online_lookup world_empty_cache_def world_after_first_def)

section \<open>Properties of the transform on arrays\<close>

lemma kept_refl: "kept h h"
  by (simp add: kept_def)

lemma kept_length: "kept h0 h \<Longrightarrow> length h0 \<le> length h"
proof -
  assume "kept h0 h"
  then have "length (take (length h0) h) = length h0" by (simp add: kept_def)
  then show ?thesis by simp
qed

lemma kept_append: "kept h0 h \<Longrightarrow> kept h0 (h @ xs)"
  using kept_length[of h0 h] by (simp add: kept_def)

lemma kept_update: "kept h0 h \<Longrightarrow> length h0 \<le> a \<Longrightarrow> kept h0 (h[a := v])"
  by (simp add: kept_def)

lemma post_and_then:
  assumes "post h0 Q m" and "\<And>v h. Q v \<Longrightarrow> kept h0 h \<Longrightarrow> post h0 R (f v h)"
  shows "post h0 R (and_then m f)"
proof (cases m)
  case (Pair r h)
  show ?thesis
  proof (cases r)
    case (Inl e)
    with Pair assms(1) show ?thesis by (simp add: and_then_def post_def)
  next
    case (Inr v)
    with Pair assms(1) have "Q v" "kept h0 h" by (simp_all add: post_def)
    then have "post h0 R (f v h)" by (rule assms(2))
    with Pair Inr show ?thesis by (simp add: and_then_def)
  qed
qed

lemma post_return: "kept h0 h \<Longrightarrow> Q v \<Longrightarrow> post h0 Q (Inr v, h)"
  by (simp add: post_def)

lemma post_weaken: "post h0 Q m \<Longrightarrow> (\<And>v. Q v \<Longrightarrow> R v) \<Longrightarrow> post h0 R m"
  by (auto simp: post_def split: sum.splits)

lemma post_np_array: "kept h0 h \<Longrightarrow> post h0 (fresh h0) (np_array v h)"
  using kept_length[of h0 h]
  by (cases v) (simp_all add: np_array_def post_def kept_append fresh_def)

lemma post_py_copy: "kept h0 h \<Longrightarrow> post h0 (fresh h0) (py_copy v h)"
  using kept_length[of h0 h]
  by (cases v) (simp_all add: py_copy_def post_def kept_append fresh_def)

lemma post_in_place: "kept h0 h \<Longrightarrow> fresh h0 v \<Longrightarrow> post h0 (fresh h0) (in_place f v h)"
  by (cases v) (simp_all add: in_place_def post_def kept_update fresh_def)

lemma post_in_place_div: "kept h0 h \<Longrightarrow> fresh h0 v \<Longrightarrow> post h0 (fresh h0) (in_place_div c v h)"
  using post_in_place[of h0 h v] by (simp add: in_place_div_def post_def)

lemma post_rotate_args:
  "kept h0 h \<Longrightarrow> post h0 (\<lambda>(x', y'). fresh h0 x' \<and> fresh h0 y') (rotate_args x y t xo yo h)"
  using kept_length[of h0 h]
  by (auto simp: rotate_args_def post_def kept_append fresh_def split: sum.splits)

lemma post_read_multiplier: "kept h0 h \<Longrightarrow> post h0 (\<lambda>v. True) (read_multiplier env sr h)"
  by (auto simp: read_multiplier_def post_def split: sum.splits option.splits)

lemma post_read_xll: "kept h0 h \<Longrightarrow> post h0 (\<lambda>v. True) (read_xll env sr h)"
  by (auto simp: read_xll_def post_def split: sum.splits)

lemma post_read_yll: "kept h0 h \<Longrightarrow> post h0 (\<lambda>v. True) (read_yll env sr h)"
  by (auto simp: read_yll_def post_def split: sum.splits)

lemma post_prepare:
  assumes "\<not> is_scalar x"
  shows "post h (\<lambda>(x1, y1). fresh h x1 \<and> fresh h y1) (prepare x y h)"
  using assms
  by (cases x; cases y)
     (simp_all add: prepare_def and_then_def np_array_def py_copy_def post_def is_scalar_def
        fresh_def kept_def)

lemma post_transform_forward:
  assumes "kept h0 h" "fresh h0 x" "fresh h0 y"
  shows "post h0 (\<lambda>v. True) (transform_forward env sr x y h)"
  unfolding transform_forward_def
  apply (rule post_and_then[OF post_read_multiplier[OF assms(1)]])
  apply (rule post_and_then[OF post_in_place[OF _ assms(2)]], assumption)
  apply (rule post_and_then[OF post_in_place[OF _ assms(3)]], assumption)
  apply (rule post_and_then[OF post_read_xll], assumption)
  apply (rule post_and_then[OF post_in_place], assumption, assumption)
  apply (rule post_and_then[OF post_read_yll], assumption)
  apply (rule post_and_then[OF post_in_place], assumption, assumption)
  apply (rule post_weaken[OF post_rotate_args], assumption)
  apply simp
  done

lemma post_transform_inverse:
  assumes "kept h0 h"
  shows "post h0 (\<lambda>v. True) (transform_inverse env sr x y h)"
  unfolding transform_inverse_def
  apply (rule post_and_then[OF post_read_xll[OF assms(1)]])
  apply (rule post_and_then[OF post_read_yll], assumption)
  apply (rule post_and_then[OF post_rotate_args], assumption)
  apply (clarsimp)
  apply (rule post_and_then[OF post_in_place], assumption, assumption)
  apply (rule post_and_then[OF post_in_place], assumption, assumption)
  apply (rule post_and_then[OF post_read_multiplier], assumption)
  apply (rule post_and_then[OF post_in_place_div], assumption, assumption)
  apply (rule post_and_then[OF post_in_place_div], assumption, assumption)
  apply (rule post_return, assumption)
  apply simp
  done

lemma transform_args_keeps:
  assumes "\<not> is_scalar x"
  shows "kept h (snd (transform_args env sr x y b h))"
proof -
  have "post h (\<lambda>v. True) (transform_args env sr x y b h)"
    unfolding transform_args_def
  proof (rule post_and_then[OF post_prepare[OF assms]], goal_cases)
    case (1 v h1)
    then show ?case
      by (cases v) (simp add: post_transform_forward post_transform_inverse)
  qed
  then show ?thesis by (simp add: post_def)
qed

text \<open>
  C10. When both arguments are lists or arrays, whatever \<^verbatim>\<open>transform\<close> does, forward or
  inverse, returning or raising, every object the caller's heap held is afterwards what it
  was: the heap has only grown at its end. (The proof needs \<^verbatim>\<open>x\<close> alone to be no scalar.)
\<close>

theorem transform_leaves_arguments:
  assumes "\<not> is_scalar x" and "\<not> is_scalar y"
  shows "take (length h) (snd (transform_args env sr x y b h)) = h"
  using transform_args_keeps[OF assms(1)] by (simp add: kept_def)

text \<open>
  Two arrays of two entries at the addresses 0 and 1, forward and inverse, and a list with an
  array: the heap's first two objects stay.
\<close>

theorem transform_leaves_arguments_witness:
  "\<not> is_scalar (NdArray 0) \<and> \<not> is_scalar (NdArray 1) \<and> \<not> is_scalar (PyList 0)
   \<and> take (length [[1, 2], [3, 4 :: real]]) (snd (transform_args env0 sr_turned (NdArray 0) (NdArray 1) False [[1, 2], [3, 4]])) = [[1, 2], [3, 4]]
   \<and> take (length [[1, 2], [3, 4 :: real]]) (snd (transform_args env0 sr_turned (NdArray 0) (NdArray 1) True [[1, 2], [3, 4]])) = [[1, 2], [3, 4]]
   \<and> take (length [[1, 2], [3, 4 :: real]]) (snd (transform_args env0 sr_turned (PyList 0) (NdArray 1) False [[1, 2], [3, 4]])) = [[1, 2], [3, 4]]"
  using transform_leaves_arguments[of "NdArray 0" "NdArray 1" "[[1, 2], [3, 4]]" env0 sr_turned False]
        transform_leaves_arguments[of "NdArray 0" "NdArray 1" "[[1, 2], [3, 4]]" env0 sr_turned True]
        transform_leaves_arguments[of "PyList 0" "NdArray 1" "[[1, 2], [3, 4]]" env0 sr_turned False]
  by (simp add: is_scalar_def)

text \<open>
  The copy is what protects the caller: with a scalar \<^verbatim>\<open>x\<close> nothing is copied, and the
  forward transform scales and shifts the caller's array \<^verbatim>\<open>y\<close> where it lies.
\<close>

lemma transform_scalar_x_changes_y:
  "snd (transform_args env0 sr_turned (Scalar 1) (NdArray 0) False [[1, 2]]) ! 0 = [22, 24]"
proof -
  have lm: "length_multiplier_get env0 sr_turned = Inr (Some 2)"
    by (simp add: length_multiplier_get_def sr_turned_def)
  have xo: "xll_get env0 sr_turned = Inr 10"
    by (simp add: xll_get_def sr_turned_def sr_2x2_def)
  have yo: "yll_get env0 sr_turned = Inr 20"
    by (simp add: yll_get_def sr_turned_def sr_2x2_def)
  show ?thesis
    by (simp add: transform_args_def prepare_def and_then_def is_scalar_def transform_forward_def
        read_multiplier_def read_xll_def read_yll_def lm xo yo in_place_def deref_def
        rotate_args_def entries_def broadcast_def)
qed

text \<open>
  On two scalars the transform on arguments is the transform of the first part: the same
  result, and the heap is not touched.
\<close>

lemma transform_args_scalars:
  assumes "transform env sr x y b = Inr (a, c)"
  shows "transform_args env sr (Scalar x) (Scalar y) b h = (Inr (Scalar a, Scalar c), h)"
proof -
  obtain lm xo yo where r: "transform_reads env sr b = Inr (lm, xo, yo)"
    using assms by (auto simp: transform_def split: sum.splits)
  have reads: "length_multiplier_get env sr = Inr (Some lm)" "xll_get env sr = Inr xo" "yll_get env sr = Inr yo"
    using r by (auto simp: transform_reads_def split: sum.splits option.splits if_splits)
  show ?thesis
  proof (cases b)
    case False
    then have "forward_point lm xo yo (rotation sr) (x, y) = (a, c)"
      using assms r by (simp add: transform_def)
    then show ?thesis using False
      by (simp add: transform_args_def prepare_def and_then_def is_scalar_def transform_forward_def
          read_multiplier_def read_xll_def read_yll_def reads in_place_def rotate_args_def entries_def
          broadcast_def forward_point_def Let_def)
  next
    case True
    then have nz: "lm \<noteq> 0" and "inverse_point lm xo yo (rotation sr) (x, y) = (a, c)"
      using assms r by (auto simp: transform_def split: if_splits)
    then show ?thesis using True
      by (simp add: transform_args_def prepare_def and_then_def is_scalar_def transform_inverse_def
          read_multiplier_def read_xll_def read_yll_def reads in_place_def in_place_div_def rotate_args_def
          entries_def broadcast_def inverse_point_def Let_def split: prod.splits)
  qed
qed

end
